theory Spec2Isabelle
  imports Complex_Main "HOL-Library.Sublist"
begin

section \<open>The named-entity recogniser's command-line scripts (nut/ner/ner.py)\<close>

text \<open>
  The module holds two scripts, \<open>train\<close> and \<open>predict\<close>. Both are sequences of calls
  into collaborators that live in other modules (the option parser, the corpus reader,
  model persistence, the tagger). The embedding keeps the scripts' own control flow and
  makes everything else explicit:
  \<^item> Python objects are attribute dictionaries in a store addressed by references, so
    that "the same object" is "the same reference";
  \<^item> every call of a collaborator is logged in a trace, in program order, before its
    result is inspected;
  \<^item> every collaborator either raises an exception or returns a value and a new store;
  \<^item> a script ends by returning, by \<open>sys.exit\<close> or by an exception nobody catches.
\<close>

subsection \<open>Values, objects and the store\<close>

type_synonym ref = nat

datatype pyval = PNone | PBool bool | PInt int | PFloat real | PStr string | PRef ref

text \<open>\<open>Error\<close> is the exception class the module itself declares (line 19).\<close>

datatype pyexn =
    ImportError
  | AttributeError
  | IndexError
  | ZeroDivisionError
  | TypeError
  | Error string
  | OtherException string

type_synonym pyobj = "string \<rightharpoonup> pyval"

type_synonym heap = "ref \<Rightarrow> pyobj"

text \<open>Reading \<open>v.a\<close>: only objects have attributes, and a missing one raises.\<close>

definition getattr :: "heap \<Rightarrow> pyval \<Rightarrow> string \<Rightarrow> pyexn + pyval" where
  "getattr h v a =
     (case v of
        PRef r \<Rightarrow> (case h r a of None \<Rightarrow> Inl AttributeError | Some x \<Rightarrow> Inr x)
      | _ \<Rightarrow> Inl AttributeError)"

text \<open>The assignment \<open>r.a = x\<close>.\<close>

definition setattr :: "heap \<Rightarrow> ref \<Rightarrow> string \<Rightarrow> pyval \<Rightarrow> heap" where
  "setattr h r a x = h(r := (h r)(a \<mapsto> x))"

text \<open>
  Python's \<open>==\<close> and \<open>!=\<close> on these values: booleans, integers and floats compare by
  numeric value (\<open>True == 1\<close>), strings by content, objects by identity.
\<close>

fun num_of :: "pyval \<Rightarrow> real option" where
  "num_of (PBool b) = Some (if b then 1 else 0)"
| "num_of (PInt i) = Some (of_int i)"
| "num_of (PFloat x) = Some x"
| "num_of PNone = None"
| "num_of (PStr s) = None"
| "num_of (PRef r) = None"

definition py_eq :: "pyval \<Rightarrow> pyval \<Rightarrow> bool" where
  "py_eq x y =
     (case (num_of x, num_of y) of
        (Some a, Some b) \<Rightarrow> a = b
      | (None, None) \<Rightarrow> x = y
      | _ \<Rightarrow> False)"

definition py_ne :: "pyval \<Rightarrow> pyval \<Rightarrow> bool" where
  "py_ne x y = (\<not> py_eq x y)"

subsection \<open>Streams, events, outcomes and the script state\<close>

text \<open>\<open>FileObj path mode\<close> is the file object that \<open>open(path, mode)\<close> returned.\<close>

datatype stream = Stdout | Stderr | FileObj string string

text \<open>
  One event per call the scripts make. \<open>Print f items nl\<close> is a print statement on
  stream \<open>f\<close>; \<open>nl\<close> is false for a statement that ends in a comma.
\<close>

datatype event =
    Print stream "pyval list" bool
  | PrintUsage string
  | Flush stream
  | ParserError string
  | Import string "string list"
  | NewReader string pyval
  | Load string
  | NewTagger pyval pyval pyval int
  | FeatureExtraction ref pyval int bool
  | TrainCall ref pyval real int bool
  | Describe ref int
  | IterInstances pyval
  | Dump string ref
  | Open string string
  | WritePredictions pyval pyval stream bool
  | Close stream

datatype outcome = Returned | SysExit int | Raised pyexn

record state =
  heap :: heap
  trace :: "event list"
  closed_streams :: "stream set"

definition emit :: "event \<Rightarrow> state \<Rightarrow> state" where
  "emit e s = s\<lparr>trace := trace s @ [e]\<rparr>"

subsection \<open>Options of the training script\<close>

text \<open>
  The destinations that \<open>train_args_parser\<close> (lines 23-98) declares, with their types.
  \<open>aso\<close> has the default \<open>False\<close> and otherwise holds a string: \<open>None\<close> is the default.
\<close>

record options =
  verbose :: int
  feature_module :: string
  reg :: real
  epochs :: int
  minc :: int
  max_unlabeled :: int
  lang :: string
  shuffle :: bool
  stats :: bool
  use_eph :: bool
  aso :: "string option"

definition default_options :: options where
  "default_options =
     \<lparr>verbose = 1, feature_module = ''rr09'', reg = 1 / 100000, epochs = 100, minc = 1,
      max_unlabeled = - 1, lang = ''en'', shuffle = False, stats = False,
      use_eph = False, aso = None\<rparr>"

text \<open>
  \<open>parser.parse_args()\<close> either ends the process itself (\<open>--help\<close>, \<open>--version\<close>, a
  malformed option) or returns the options and the positional arguments.
\<close>

datatype parse_result = ParserExit int | Parsed options "string list"

subsection \<open>The collaborators\<close>

text \<open>
  The functions and methods the scripts call and that other modules define. A call
  that raises leaves the store as it was. \<open>iterinstances\<close> gives \<open>instance.shape[0]\<close>
  for each instance of a dataset; \<open>time\<close> gives the clock at the n-th call of \<open>time()\<close>;
  \<open>open_file\<close> gives the exception \<open>open\<close> raises, if any.
\<close>

record env =
  parse_args :: "string list \<Rightarrow> parse_result"
  import_module :: "string \<Rightarrow> string list \<Rightarrow> heap \<Rightarrow> pyexn + (pyval \<times> heap)"
  Conll03Reader :: "string \<Rightarrow> pyval \<Rightarrow> heap \<Rightarrow> pyexn + (pyval \<times> heap)"
  compressed_load :: "string \<Rightarrow> heap \<Rightarrow> pyexn + (pyval \<times> heap)"
  GreedySVMTagger :: "pyval \<Rightarrow> pyval \<Rightarrow> pyval \<Rightarrow> int \<Rightarrow> heap \<Rightarrow> pyexn + (ref \<times> heap)"
  feature_extraction :: "ref \<Rightarrow> pyval \<Rightarrow> int \<Rightarrow> bool \<Rightarrow> heap \<Rightarrow> pyexn + heap"
  model_train :: "ref \<Rightarrow> pyval \<Rightarrow> real \<Rightarrow> int \<Rightarrow> bool \<Rightarrow> heap \<Rightarrow> pyexn + heap"
  describe :: "ref \<Rightarrow> int \<Rightarrow> heap \<Rightarrow> pyexn + heap"
  iterinstances :: "pyval \<Rightarrow> heap \<Rightarrow> pyexn + (int list \<times> heap)"
  compressed_dump :: "string \<Rightarrow> ref \<Rightarrow> heap \<Rightarrow> pyexn + heap"
  open_file :: "string \<Rightarrow> string \<Rightarrow> pyexn option"
  write_sent_predictions :: "pyval \<Rightarrow> pyval \<Rightarrow> stream \<Rightarrow> bool \<Rightarrow> heap \<Rightarrow> pyexn + heap"
  time :: "nat \<Rightarrow> real"

subsection \<open>\<open>train\<close>, lines 113-121: the feature extraction module\<close>

text \<open>
  The body of the \<open>try\<close>: the import, then the two attribute reads.
\<close>

definition import_features :: "env \<Rightarrow> options \<Rightarrow> state \<Rightarrow> state \<times> (pyexn + pyval \<times> pyval)" where
  "import_features E opts s =
     (let import_path = ''nut.ner.features.'' @ feature_module opts;
          s1 = emit (Import import_path [feature_module opts]) s
      in case import_module E import_path [feature_module opts] (heap s1) of
           Inl e \<Rightarrow> (s1, Inl e)
         | Inr (features, h) \<Rightarrow>
             (let s2 = s1\<lparr>heap := h\<rparr>
              in case getattr h features ''fd'' of
                   Inl e \<Rightarrow> (s2, Inl e)
                 | Inr fd \<Rightarrow>
                     (case getattr h features ''hd'' of
                        Inl e \<Rightarrow> (s2, Inl e)
                      | Inr hd' \<Rightarrow> (s2, Inr (fd, hd')))))"

text \<open>The \<open>try\<close> with its handler, which catches \<open>ImportError\<close> and nothing else.\<close>

definition get_features :: "env \<Rightarrow> options \<Rightarrow> state \<Rightarrow> state \<times> (outcome + pyval \<times> pyval)" where
  "get_features E opts s =
     (case import_features E opts s of
        (s', Inr r) \<Rightarrow> (s', Inr r)
      | (s', Inl e) \<Rightarrow>
          if e = ImportError
          then (emit (Print Stdout
                   [PStr (''Error: cannot import feature extractors from '' @ feature_module opts)]
                   True) s',
                Inl (SysExit (- 2)))
          else (s', Inl (Raised e)))"

subsection \<open>\<open>train\<close>, lines 126-150: the tagger of an ASO model\<close>

text \<open>
  Lines 140-146 are seven assignments \<open>model.b = aso_model.a\<close>, run in this order. An
  assignment whose right-hand side raises leaves the earlier ones in place.
\<close>

definition bound_attrs :: "(string \<times> string) list" where
  "bound_attrs =
     [(''V'', ''vocabulary''), (''T'', ''tags''), (''use_eph'', ''use_eph''),
      (''minc'', ''minc''), (''fidx_map'', ''fidx_map''), (''tidx_map'', ''tidx_map''),
      (''tag_map'', ''tag_map'')]"

fun copy_attrs :: "pyval \<Rightarrow> ref \<Rightarrow> (string \<times> string) list \<Rightarrow> heap \<Rightarrow> heap \<times> pyexn option" where
  "copy_attrs src dst [] h = (h, None)"
| "copy_attrs src dst ((b, a) # rest) h =
     (case getattr h src a of
        Inl e \<Rightarrow> (h, Some e)
      | Inr x \<Rightarrow> copy_attrs src dst rest (setattr h dst b x))"

text \<open>Lines 140-150: the assignments, then \<open>use_aso\<close> and \<open>aso_model\<close>.\<close>

definition bind_attrs :: "pyval \<Rightarrow> ref \<Rightarrow> heap \<Rightarrow> heap \<times> pyexn option" where
  "bind_attrs aso_model model h =
     (case copy_attrs aso_model model bound_attrs h of
        (h', Some e) \<Rightarrow> (h', Some e)
      | (h', None) \<Rightarrow>
          (setattr (setattr h' model ''use_aso'' (PBool True)) model ''aso_model'' aso_model,
           None))"

text \<open>Lines 126-150, with \<open>path\<close> the value of \<open>options.aso\<close>.\<close>

definition bind_aso :: "env \<Rightarrow> options \<Rightarrow> string \<Rightarrow> state \<Rightarrow> state \<times> (pyexn + ref)" where
  "bind_aso E opts path s =
     (let s1 = emit (Print Stdout [PStr ''Loading ASO model...''] False) s;
          s2 = emit (Flush Stdout) s1;
          s3 = emit (Load path) s2
      in case compressed_load E path (heap s3) of
           Inl e \<Rightarrow> (s3, Inl e)
         | Inr (aso_model, h) \<Rightarrow>
      (let s4 = emit (Print Stdout [PStr ''[done]''] True) (s3\<lparr>heap := h\<rparr>)
      in case getattr h aso_model ''fd'' of
           Inl e \<Rightarrow> (s4, Inl e)
         | Inr afd \<Rightarrow>
      (case getattr h aso_model ''hd'' of
           Inl e \<Rightarrow> (s4, Inl e)
         | Inr ahd \<Rightarrow>
      (case getattr h aso_model ''lang'' of
           Inl e \<Rightarrow> (s4, Inl e)
         | Inr alang \<Rightarrow>
      (let s5 = emit (NewTagger afd ahd alang (verbose opts)) s4
      in case GreedySVMTagger E afd ahd alang (verbose opts) h of
           Inl e \<Rightarrow> (s5, Inl e)
         | Inr (model, h') \<Rightarrow>
      (let s6 = s5\<lparr>heap := h'\<rparr>
      in case getattr h' aso_model ''use_eph'' of
           Inl e \<Rightarrow> (s6, Inl e)
         | Inr aeph \<Rightarrow>
      if py_ne (PBool (use_eph opts)) aeph
      then (s6, Inl (Error ''options.use_eph != aso_model.use_eph.''))
      else
      (case getattr h' aso_model ''lang'' of
           Inl e \<Rightarrow> (s6, Inl e)
         | Inr alang' \<Rightarrow>
      if py_ne (PStr (lang opts)) alang'
      then (s6, Inl (Error ''options.lang != aso_model.lang.''))
      else
      (case bind_attrs aso_model model h' of
           (h'', Some e) \<Rightarrow> (s6\<lparr>heap := h''\<rparr>, Inl e)
         | (h'', None) \<Rightarrow> (s6\<lparr>heap := h''\<rparr>, Inr model)))))))))"

subsection \<open>\<open>train\<close>, lines 155-158: the tagger of the feature module\<close>

definition build_plain ::
  "env \<Rightarrow> options \<Rightarrow> pyval \<Rightarrow> pyval \<Rightarrow> pyval \<Rightarrow> state \<Rightarrow> state \<times> (pyexn + ref)" where
  "build_plain E opts fd hd' train_reader s =
     (let s1 = emit (NewTagger fd hd' (PStr (lang opts)) (verbose opts)) s
      in case GreedySVMTagger E fd hd' (PStr (lang opts)) (verbose opts) (heap s1) of
           Inl e \<Rightarrow> (s1, Inl e)
         | Inr (model, h) \<Rightarrow>
      (let s2 = emit (FeatureExtraction model train_reader (minc opts) (use_eph opts))
                  (s1\<lparr>heap := h\<rparr>)
      in case feature_extraction E model train_reader (minc opts) (use_eph opts) h of
           Inl e \<Rightarrow> (s2, Inl e)
         | Inr h' \<Rightarrow> (s2\<lparr>heap := h'\<rparr>, Inr model)))"

subsection \<open>\<open>train\<close>, lines 160-171: training, statistics, saving\<close>

text \<open>The loop of lines 166-168.\<close>

fun count_nnz :: "int \<Rightarrow> int list \<Rightarrow> int" where
  "count_nnz nnz [] = nnz"
| "count_nnz nnz (shape0 # instances) = count_nnz (nnz + shape0) instances"

text \<open>\<open>float(nnz) / n\<close> of line 169.\<close>

definition avg_nnz :: "int \<Rightarrow> pyval \<Rightarrow> pyexn + real" where
  "avg_nnz nnz n =
     (case num_of n of
        None \<Rightarrow> Inl TypeError
      | Some d \<Rightarrow> if d = 0 then Inl ZeroDivisionError else Inr (of_int nnz / d))"

text \<open>Lines 163-169.\<close>

definition print_stats :: "env \<Rightarrow> ref \<Rightarrow> state \<Rightarrow> state \<times> pyexn option" where
  "print_stats E model s =
     (let s1 = emit (Print Stdout [PStr (replicate 80 (CHR ''_''))] True) s;
          s2 = emit (Print Stdout [PStr ('' Stats'' @ [CHR 0x0A])] True) s1;
          s3 = emit (Describe model 40) s2
      in case describe E model 40 (heap s3) of
           Inl e \<Rightarrow> (s3, Some e)
         | Inr h \<Rightarrow>
      (let s4 = s3\<lparr>heap := h\<rparr>
      in case getattr h (PRef model) ''dataset'' of
           Inl e \<Rightarrow> (s4, Some e)
         | Inr dataset \<Rightarrow>
      (let s5 = emit (IterInstances dataset) s4
      in case iterinstances E dataset h of
           Inl e \<Rightarrow> (s5, Some e)
         | Inr (instances, h') \<Rightarrow>
      (let s6 = s5\<lparr>heap := h'\<rparr>;
           nnz = count_nnz 0 instances
      in case getattr h' (PRef model) ''dataset'' of
           Inl e \<Rightarrow> (s6, Some e)
         | Inr dataset' \<Rightarrow>
      (case getattr h' dataset' ''n'' of
           Inl e \<Rightarrow> (s6, Some e)
         | Inr n \<Rightarrow>
      (case avg_nnz nnz n of
           Inl e \<Rightarrow> (s6, Some e)
         | Inr avg \<Rightarrow>
             (emit (Print Stdout [PStr ''avg. nnz: %.4f'', PFloat avg] True) s6, None)))))))"

text \<open>Lines 160-171.\<close>

definition run_training ::
  "env \<Rightarrow> options \<Rightarrow> string \<Rightarrow> pyval \<Rightarrow> ref \<Rightarrow> state \<Rightarrow> state \<times> outcome" where
  "run_training E opts f_model train_reader model s =
     (let s1 = emit (TrainCall model train_reader (reg opts) (epochs opts) (shuffle opts)) s
      in case model_train E model train_reader (reg opts) (epochs opts) (shuffle opts) (heap s1) of
           Inl e \<Rightarrow> (s1, Raised e)
         | Inr h \<Rightarrow>
      (case (if stats opts then print_stats E model (s1\<lparr>heap := h\<rparr>)
             else (s1\<lparr>heap := h\<rparr>, None)) of
           (s2, Some e) \<Rightarrow> (s2, Raised e)
         | (s2, None) \<Rightarrow>
      (let s3 = emit (Dump f_model model) s2
      in case compressed_dump E f_model model (heap s3) of
           Inl e \<Rightarrow> (s3, Raised e)
         | Inr h' \<Rightarrow> (s3\<lparr>heap := h'\<rparr>, Returned))))"

subsection \<open>\<open>train\<close>\<close>

text \<open>
  \<open>if options.aso:\<close> (line 125) takes the first branch for a non-empty string only:
  the default \<open>False\<close> and the empty string are both false in Python.
\<close>

definition build_model ::
  "env \<Rightarrow> options \<Rightarrow> pyval \<Rightarrow> pyval \<Rightarrow> pyval \<Rightarrow> state \<Rightarrow> state \<times> (pyexn + ref)" where
  "build_model E opts fd hd' train_reader s =
     (case aso opts of
        None \<Rightarrow> build_plain E opts fd hd' train_reader s
      | Some path \<Rightarrow>
          if path = [] then build_plain E opts fd hd' train_reader s
          else bind_aso E opts path s)"

text \<open>Lines 123-171, with the two file names and the two feature functions.\<close>

definition train_body ::
  "env \<Rightarrow> options \<Rightarrow> string \<Rightarrow> string \<Rightarrow> pyval \<Rightarrow> pyval \<Rightarrow> state \<Rightarrow> state \<times> outcome" where
  "train_body E opts f_train f_model fd hd' s =
     (let s1 = emit (NewReader f_train (PStr (lang opts))) s
      in case Conll03Reader E f_train (PStr (lang opts)) (heap s1) of
           Inl e \<Rightarrow> (s1, Raised e)
         | Inr (train_reader, h) \<Rightarrow>
      (case build_model E opts fd hd' train_reader (s1\<lparr>heap := h\<rparr>) of
           (s2, Inl e) \<Rightarrow> (s2, Raised e)
         | (s2, Inr model) \<Rightarrow> run_training E opts f_model train_reader model s2))"

text \<open>
  The script. \<open>cmdline\<close> is \<open>sys.argv[1:]\<close>, which \<open>parse_args\<close> reads.
  \<open>parser.error\<close> prints the usage with the message and ends the process with status 2.
\<close>

definition train :: "env \<Rightarrow> string list \<Rightarrow> state \<Rightarrow> state \<times> outcome" where
  "train E cmdline s =
     (case parse_args E cmdline of
        ParserExit n \<Rightarrow> (s, SysExit n)
      | Parsed opts argv \<Rightarrow>
          if length argv \<noteq> 2
          then (emit (ParserError ''incorrect number of arguments (use `--help` for help).'') s,
                SysExit 2)
          else
            (let f_train = argv ! 0;
                 f_model = argv ! 1
             in case get_features E opts s of
                  (s1, Inl out) \<Rightarrow> (s1, out)
                | (s1, Inr (fd, hd')) \<Rightarrow> train_body E opts f_train f_model fd hd' s1))"

subsection \<open>\<open>predict\<close>\<close>

text \<open>The local function \<open>usage\<close> (lines 177-185), which reads \<open>sys.argv[0]\<close>.\<close>

definition usage :: "string list \<Rightarrow> state \<Rightarrow> state \<times> pyexn option" where
  "usage sys_argv s =
     (case sys_argv of
        [] \<Rightarrow> (s, Some IndexError)
      | prog # _ \<Rightarrow> (emit (PrintUsage prog) s, None))"

definition usage_exit :: "string list \<Rightarrow> state \<Rightarrow> state \<times> outcome" where
  "usage_exit sys_argv s =
     (case usage sys_argv s of
        (s', Some e) \<Rightarrow> (s', Raised e)
      | (s', None) \<Rightarrow> (s', SysExit (- 2)))"

text \<open>Lines 202-205: the stream that receives the predictions.\<close>

definition open_output :: "env \<Rightarrow> string \<Rightarrow> state \<Rightarrow> state \<times> (pyexn + stream)" where
  "open_output E pred_file s =
     (if pred_file \<noteq> ''-''
      then (let s1 = emit (Open pred_file ''w+'') s
            in case open_file E pred_file ''w+'' of
                 Some e \<Rightarrow> (s1, Inl e)
               | None \<Rightarrow> (s1, Inr (FileObj pred_file ''w+'')))
      else (s, Inr Stdout))"

text \<open>Lines 202-209, with the reader and the model of lines 197-201.\<close>

definition write_output :: "env \<Rightarrow> pyval \<Rightarrow> pyval \<Rightarrow> string \<Rightarrow> state \<Rightarrow> state \<times> outcome" where
  "write_output E test_reader model pred_file s =
     (case open_output E pred_file s of
        (s1, Inl e) \<Rightarrow> (s1, Raised e)
      | (s1, Inr f) \<Rightarrow>
      (let t0 = time E 0;
           s2 = emit (WritePredictions test_reader model f False) s1
      in case write_sent_predictions E test_reader model f False (heap s2) of
           Inl e \<Rightarrow> (s2, Raised e)
         | Inr h \<Rightarrow>
      (let s3 = emit (Close f) (s2\<lparr>heap := h, closed_streams := insert f (closed_streams s2)\<rparr>);
           s4 = emit (Print Stderr
                  [PStr ''processed input in %.4fs sec.'', PFloat (time E 1 - t0)] True) s3
      in (s4, Returned))))"

text \<open>
  Lines 195-209, for an argument list of length three. A print statement writes its
  items as it evaluates them, so \<open>"use_eph: "\<close> is out before \<open>model.use_eph\<close> is read.
\<close>

definition predict_run :: "env \<Rightarrow> string list \<Rightarrow> state \<Rightarrow> state \<times> outcome" where
  "predict_run E argv s =
     (let s1 = emit (Print Stderr [PStr ''loading tagger...''] False) s;
          s2 = emit (Flush Stderr) s1;
          s3 = emit (Load (argv ! 0)) s2
      in case compressed_load E (argv ! 0) (heap s3) of
           Inl e \<Rightarrow> (s3, Raised e)
         | Inr (model, h) \<Rightarrow>
      (let s4 = emit (Print Stderr [PStr ''[done]''] True) (s3\<lparr>heap := h\<rparr>)
      in case getattr h model ''use_eph'' of
           Inl e \<Rightarrow> (emit (Print Stderr [PStr ''use_eph: ''] False) s4, Raised e)
         | Inr ueph \<Rightarrow>
      (let s5 = emit (Print Stderr [PStr ''use_eph: '', ueph] True) s4
      in case getattr h model ''use_aso'' of
           Inl e \<Rightarrow> (emit (Print Stderr [PStr ''use_aso: ''] False) s5, Raised e)
         | Inr uaso \<Rightarrow>
      (let s6 = emit (Print Stderr [PStr ''use_aso: '', uaso] True) s5
      in case getattr h model ''lang'' of
           Inl e \<Rightarrow> (s6, Raised e)
         | Inr mlang \<Rightarrow>
      (let s7 = emit (NewReader (argv ! 1) mlang) s6
      in case Conll03Reader E (argv ! 1) mlang h of
           Inl e \<Rightarrow> (s7, Raised e)
         | Inr (test_reader, h') \<Rightarrow>
             write_output E test_reader model (argv ! 2) (s7\<lparr>heap := h'\<rparr>))))))"

text \<open>The script, lines 186-209. \<open>sys_argv\<close> is \<open>sys.argv\<close>.\<close>

definition predict :: "env \<Rightarrow> string list \<Rightarrow> state \<Rightarrow> state \<times> outcome" where
  "predict E sys_argv s =
     (let argv = drop 1 sys_argv
      in if ''--help'' \<in> set argv \<or> ''-h'' \<in> set argv then usage_exit sys_argv s
         else if length argv \<noteq> 3
         then usage_exit sys_argv
                (emit (Print Stdout [PStr ''Error: wrong number of arguments. ''] True) s)
         else predict_run E argv s)"

text \<open>
  The status the operating system sees: 0 after a return, the argument of \<open>sys.exit\<close>
  modulo 256, and 1 after an exception that nobody caught.
\<close>

definition exit_status :: "outcome \<Rightarrow> int" where
  "exit_status out =
     (case out of Returned \<Rightarrow> 0 | SysExit n \<Rightarrow> n mod 256 | Raised e \<Rightarrow> 1)"

subsection \<open>Reading a trace\<close>

text \<open>The paths of the corpus readers constructed, in order.\<close>

fun reader_paths :: "event list \<Rightarrow> string list" where
  "reader_paths [] = []"
| "reader_paths (NewReader p l # es) = p # reader_paths es"
| "reader_paths (e # es) = reader_paths es"

text \<open>The paths that models were saved to, in order.\<close>

fun dump_paths :: "event list \<Rightarrow> string list" where
  "dump_paths [] = []"
| "dump_paths (Dump p m # es) = p # dump_paths es"
| "dump_paths (e # es) = dump_paths es"

text \<open>The streams that \<open>write_sent_predictions\<close> was called on, in order.\<close>

fun written_to :: "event list \<Rightarrow> stream list" where
  "written_to [] = []"
| "written_to (WritePredictions r m f raw # es) = f # written_to es"
| "written_to (e # es) = written_to es"

text \<open>The calls of \<open>open\<close>, in order, as path and mode.\<close>

fun opened :: "event list \<Rightarrow> (string \<times> string) list" where
  "opened [] = []"
| "opened (Open p mode # es) = (p, mode) # opened es"
| "opened (e # es) = opened es"

text \<open>The two calls that do the training work: indexing the corpus and the training loop.\<close>

fun is_training_step :: "event \<Rightarrow> bool" where
  "is_training_step (FeatureExtraction m r c u) = True"
| "is_training_step (TrainCall m r g n b) = True"
| "is_training_step _ = False"

text \<open>The calls of lines 126-134, in order, when none of them raises.\<close>

definition aso_events :: "string \<Rightarrow> pyval \<Rightarrow> pyval \<Rightarrow> pyval \<Rightarrow> int \<Rightarrow> event list" where
  "aso_events path afd ahd alang v =
     [Print Stdout [PStr ''Loading ASO model...''] False, Flush Stdout, Load path,
      Print Stdout [PStr ''[done]''] True, NewTagger afd ahd alang v]"

text \<open>The calls of lines 195-201, in order, when none of them raises.\<close>

definition predict_events :: "string \<Rightarrow> string \<Rightarrow> pyval \<Rightarrow> pyval \<Rightarrow> pyval \<Rightarrow> event list" where
  "predict_events model_file test_file ueph uaso mlang =
     [Print Stderr [PStr ''loading tagger...''] False, Flush Stderr, Load model_file,
      Print Stderr [PStr ''[done]''] True, Print Stderr [PStr ''use_eph: '', ueph] True,
      Print Stderr [PStr ''use_aso: '', uaso] True, NewReader test_file mlang]"

text \<open>The attributes of the tagger that lines 140-150 assign.\<close>

definition bind_targets :: "string list" where
  "bind_targets = map fst bound_attrs @ [''use_aso'', ''aso_model'']"

subsection \<open>A sample environment\<close>

text \<open>
  Concrete collaborators on which the theorems below are instantiated: a parser that
  has read the options \<open>opts\<close> and leaves the whole command line positional; a features
  package that holds the module \<open>rr09\<close> only; a saved ASO model \<open>aso.model\<close>, trained
  for English with the prediction history; a saved tagger \<open>ner.model\<close>; an output
  path that cannot be opened.
\<close>

definition init_state :: state where
  "init_state = \<lparr>heap = (\<lambda>r. Map.empty), trace = [], closed_streams = {}\<rparr>"

definition sample_aso :: pyobj where
  "sample_aso =
     [''fd'' \<mapsto> PRef 11, ''hd'' \<mapsto> PRef 12, ''lang'' \<mapsto> PStr ''en'',
      ''use_eph'' \<mapsto> PBool True, ''vocabulary'' \<mapsto> PRef 13, ''tags'' \<mapsto> PRef 14,
      ''minc'' \<mapsto> PInt 2, ''fidx_map'' \<mapsto> PRef 15, ''tidx_map'' \<mapsto> PRef 16,
      ''tag_map'' \<mapsto> PRef 17]"

definition sample_tagger :: pyobj where
  "sample_tagger =
     [''use_eph'' \<mapsto> PBool False, ''use_aso'' \<mapsto> PBool False, ''lang'' \<mapsto> PStr ''en'']"

definition sample_env :: "options \<Rightarrow> env" where
  "sample_env opts =
     \<lparr>parse_args = (\<lambda>cmdline. Parsed opts cmdline),
      import_module = (\<lambda>path fromlist h.
         if path = ''nut.ner.features.rr09''
         then Inr (PRef 1, h(1 := [''fd'' \<mapsto> PRef 2, ''hd'' \<mapsto> PRef 3]))
         else Inl ImportError),
      Conll03Reader = (\<lambda>path l h. Inr (PRef 4, h)),
      compressed_load = (\<lambda>path h.
         if path = ''aso.model'' then Inr (PRef 10, h(10 := sample_aso))
         else if path = ''ner.model'' then Inr (PRef 20, h(20 := sample_tagger))
         else Inl (OtherException ''IOError'')),
      GreedySVMTagger = (\<lambda>fd hd' l v h.
         Inr (30, h(30 := [''fd'' \<mapsto> fd, ''hd'' \<mapsto> hd', ''lang'' \<mapsto> l,
                           ''verbose'' \<mapsto> PInt v]))),
      feature_extraction = (\<lambda>model reader c u h.
         Inr (setattr (setattr h model ''minc'' (PInt c)) model ''use_eph'' (PBool u))),
      model_train = (\<lambda>model reader g n b h. Inr h),
      describe = (\<lambda>model k h. Inr h),
      iterinstances = (\<lambda>dataset h. Inr ([3, 5], h)),
      compressed_dump = (\<lambda>path model h. Inr h),
      open_file = (\<lambda>path mode.
         if path = ''/missing/out.txt'' then Some (OtherException ''IOError'') else None),
      write_sent_predictions = (\<lambda>reader model f raw h. Inr h),
      time = (\<lambda>n. real n)\<rparr>"

section \<open>Properties\<close>

subsection \<open>The state and the store\<close>

lemma heap_emit [simp]: "heap (emit e s) = heap s"
  by (simp add: emit_def)

lemma trace_emit [simp]: "trace (emit e s) = trace s @ [e]"
  by (simp add: emit_def)

lemma closed_emit [simp]: "closed_streams (emit e s) = closed_streams s"
  by (simp add: emit_def)

lemma getattr_setattr:
  "getattr (setattr h r b x) v a = (if v = PRef r \<and> a = b then Inr x else getattr h v a)"
  by (simp add: getattr_def setattr_def split: pyval.splits)

subsection \<open>The feature module\<close>

lemma get_features_import_error:
  assumes "import_module E (''nut.ner.features.'' @ feature_module opts) [feature_module opts] (heap s)
             = Inl ImportError"
  shows "get_features E opts s =
           (s\<lparr>trace := trace s @
                [Import (''nut.ner.features.'' @ feature_module opts) [feature_module opts],
                 Print Stdout
                   [PStr (''Error: cannot import feature extractors from '' @ feature_module opts)]
                   True]\<rparr>,
            Inl (SysExit (- 2)))"
  using assms by (simp add: get_features_def import_features_def Let_def emit_def)

text \<open>
  Claim C3. When the import of the feature module raises \<open>ImportError\<close>, \<open>train\<close> prints
  the error message and ends with \<open>sys.exit(-2)\<close>. The import and the print are the only
  events of the run: no reader and no tagger is constructed, nothing is loaded and no
  training step starts.
\<close>

theorem import_failure_exits:
  assumes "parse_args E cmdline = Parsed opts argv"
    and "length argv = 2"
    and "import_module E (''nut.ner.features.'' @ feature_module opts) [feature_module opts] (heap s)
           = Inl ImportError"
  shows "train E cmdline s =
           (s\<lparr>trace := trace s @
                [Import (''nut.ner.features.'' @ feature_module opts) [feature_module opts],
                 Print Stdout
                   [PStr (''Error: cannot import feature extractors from '' @ feature_module opts)]
                   True]\<rparr>,
            SysExit (- 2))"
  using assms by (simp add: train_def get_features_import_error)

subsection \<open>Binding an ASO model\<close>

lemma bind_attrs_ok:
  assumes "getattr h am ''vocabulary'' = Inr voc"
    and "getattr h am ''tags'' = Inr tg"
    and "getattr h am ''use_eph'' = Inr aeph"
    and "getattr h am ''minc'' = Inr mc"
    and "getattr h am ''fidx_map'' = Inr fi"
    and "getattr h am ''tidx_map'' = Inr ti"
    and "getattr h am ''tag_map'' = Inr tm"
  shows "bind_attrs am m h =
           (h(m := (h m)(''V'' \<mapsto> voc, ''T'' \<mapsto> tg, ''use_eph'' \<mapsto> aeph, ''minc'' \<mapsto> mc,
                ''fidx_map'' \<mapsto> fi, ''tidx_map'' \<mapsto> ti, ''tag_map'' \<mapsto> tm,
                ''use_aso'' \<mapsto> PBool True, ''aso_model'' \<mapsto> am)), None)"
  using assms by (simp add: bind_attrs_def bound_attrs_def getattr_setattr) (simp add: setattr_def)

lemma bind_aso_mismatch:
  assumes "compressed_load E path (heap s) = Inr (am, h2)"
    and "getattr h2 am ''fd'' = Inr afd"
    and "getattr h2 am ''hd'' = Inr ahd"
    and "getattr h2 am ''lang'' = Inr alang"
    and "GreedySVMTagger E afd ahd alang (verbose opts) h2 = Inr (m, h3)"
    and "getattr h3 am ''use_eph'' = Inr aeph"
    and "py_ne (PBool (use_eph opts)) aeph
         \<or> getattr h3 am ''lang'' = Inr alang' \<and> py_ne (PStr (lang opts)) alang'"
  shows "bind_aso E opts path s =
           (s\<lparr>heap := h3, trace := trace s @ aso_events path afd ahd alang (verbose opts)\<rparr>,
            Inl (Error (if py_ne (PBool (use_eph opts)) aeph
                        then ''options.use_eph != aso_model.use_eph.''
                        else ''options.lang != aso_model.lang.'')))"
  using assms by (auto simp add: bind_aso_def Let_def emit_def aso_events_def)

lemma bind_aso_match:
  assumes "compressed_load E path (heap s) = Inr (am, h2)"
    and "getattr h2 am ''fd'' = Inr afd"
    and "getattr h2 am ''hd'' = Inr ahd"
    and "getattr h2 am ''lang'' = Inr alang"
    and "GreedySVMTagger E afd ahd alang (verbose opts) h2 = Inr (m, h3)"
    and "getattr h3 am ''use_eph'' = Inr aeph"
    and "\<not> py_ne (PBool (use_eph opts)) aeph"
    and "getattr h3 am ''lang'' = Inr alang'"
    and "\<not> py_ne (PStr (lang opts)) alang'"
    and "bind_attrs am m h3 = (h4, None)"
  shows "bind_aso E opts path s =
           (s\<lparr>heap := h4, trace := trace s @ aso_events path afd ahd alang (verbose opts)\<rparr>,
            Inr m)"
  using assms by (simp add: bind_aso_def Let_def emit_def aso_events_def)

lemma train_to_body:
  assumes "parse_args E cmdline = Parsed opts argv"
    and "length argv = 2"
    and "get_features E opts s = (s1, Inr (fd, hd'))"
  shows "train E cmdline s = train_body E opts (argv ! 0) (argv ! 1) fd hd' s1"
  using assms by (simp add: train_def)

lemma get_features_ok_trace:
  assumes "get_features E opts s = (s1, Inr r)"
  shows "trace s1 = trace s @ [Import (''nut.ner.features.'' @ feature_module opts) [feature_module opts]]"
  using assms
  by (auto simp add: get_features_def import_features_def Let_def emit_def
      split: sum.splits prod.splits if_splits)

lemma train_body_aso:
  assumes "Conll03Reader E f_train (PStr (lang opts)) (heap s1) = Inr (rd, h1)"
    and "aso opts = Some path"
    and "path \<noteq> []"
  shows "train_body E opts f_train f_model fd hd' s1 =
           (case bind_aso E opts path
                   ((emit (NewReader f_train (PStr (lang opts))) s1)\<lparr>heap := h1\<rparr>) of
              (s2, Inl e) \<Rightarrow> (s2, Raised e)
            | (s2, Inr model) \<Rightarrow> run_training E opts f_model rd model s2)"
  using assms by (simp add: train_body_def build_model_def Let_def)

lemma train_aso_mismatch:
  assumes "parse_args E cmdline = Parsed opts argv"
    and "length argv = 2"
    and "get_features E opts s = (s1, Inr (fd, hd'))"
    and "Conll03Reader E (argv ! 0) (PStr (lang opts)) (heap s1) = Inr (rd, h1)"
    and "aso opts = Some path"
    and "path \<noteq> []"
    and "compressed_load E path h1 = Inr (am, h2)"
    and "getattr h2 am ''fd'' = Inr afd"
    and "getattr h2 am ''hd'' = Inr ahd"
    and "getattr h2 am ''lang'' = Inr alang"
    and "GreedySVMTagger E afd ahd alang (verbose opts) h2 = Inr (m, h3)"
    and "getattr h3 am ''use_eph'' = Inr aeph"
    and "py_ne (PBool (use_eph opts)) aeph
         \<or> getattr h3 am ''lang'' = Inr alang' \<and> py_ne (PStr (lang opts)) alang'"
  shows "train E cmdline s =
           (s1\<lparr>heap := h3,
               trace := trace s1 @ NewReader (argv ! 0) (PStr (lang opts))
                          # aso_events path afd ahd alang (verbose opts)\<rparr>,
            Raised (Error (if py_ne (PBool (use_eph opts)) aeph
                           then ''options.use_eph != aso_model.use_eph.''
                           else ''options.lang != aso_model.lang.'')))"
proof -
  let ?s = "(emit (NewReader (argv ! 0) (PStr (lang opts))) s1)\<lparr>heap := h1\<rparr>"
  have load: "compressed_load E path (heap ?s) = Inr (am, h2)"
    using assms(7) by simp
  have "bind_aso E opts path ?s =
          (?s\<lparr>heap := h3, trace := trace ?s @ aso_events path afd ahd alang (verbose opts)\<rparr>,
           Inl (Error (if py_ne (PBool (use_eph opts)) aeph
                       then ''options.use_eph != aso_model.use_eph.''
                       else ''options.lang != aso_model.lang.'')))"
    by (rule bind_aso_mismatch [OF load assms(8-13)])
  then show ?thesis
    by (simp add: train_to_body [OF assms(1-3)] train_body_aso [OF assms(4-6)] emit_def)
qed

lemma train_aso_bound:
  assumes "parse_args E cmdline = Parsed opts argv"
    and "length argv = 2"
    and "get_features E opts s = (s1, Inr (fd, hd'))"
    and "Conll03Reader E (argv ! 0) (PStr (lang opts)) (heap s1) = Inr (rd, h1)"
    and "aso opts = Some path"
    and "path \<noteq> []"
    and "compressed_load E path h1 = Inr (am, h2)"
    and "getattr h2 am ''fd'' = Inr afd"
    and "getattr h2 am ''hd'' = Inr ahd"
    and "getattr h2 am ''lang'' = Inr alang"
    and "GreedySVMTagger E afd ahd alang (verbose opts) h2 = Inr (m, h3)"
    and "getattr h3 am ''use_eph'' = Inr aeph"
    and "\<not> py_ne (PBool (use_eph opts)) aeph"
    and "getattr h3 am ''lang'' = Inr alang'"
    and "\<not> py_ne (PStr (lang opts)) alang'"
    and "bind_attrs am m h3 = (h4, None)"
  shows "train E cmdline s =
           run_training E opts (argv ! 1) rd m
             (s1\<lparr>heap := h4,
                 trace := trace s1 @ NewReader (argv ! 0) (PStr (lang opts))
                            # aso_events path afd ahd alang (verbose opts)\<rparr>)"
proof -
  let ?s = "(emit (NewReader (argv ! 0) (PStr (lang opts))) s1)\<lparr>heap := h1\<rparr>"
  have load: "compressed_load E path (heap ?s) = Inr (am, h2)"
    using assms(7) by simp
  have "bind_aso E opts path ?s =
          (?s\<lparr>heap := h4, trace := trace ?s @ aso_events path afd ahd alang (verbose opts)\<rparr>,
           Inr m)"
    by (rule bind_aso_match [OF load assms(8-16)])
  then show ?thesis
    by (simp add: train_to_body [OF assms(1-3)] train_body_aso [OF assms(4-6)] emit_def)
qed

subsection \<open>Training without an ASO model\<close>

lemma reader_paths_append [simp]: "reader_paths (xs @ ys) = reader_paths xs @ reader_paths ys"
  by (induction xs rule: reader_paths.induct) simp_all

lemma dump_paths_append [simp]: "dump_paths (xs @ ys) = dump_paths xs @ dump_paths ys"
  by (induction xs rule: dump_paths.induct) simp_all

lemma print_stats_trace:
  "\<exists>ev. trace (fst (print_stats E m s)) = trace s @ ev \<and> reader_paths ev = [] \<and> dump_paths ev = []"
  by (auto simp add: print_stats_def Let_def emit_def split: sum.splits prod.splits)

lemma run_training_trace:
  "\<exists>ev. trace (fst (run_training E opts f_model rd m s))
          = trace s @ TrainCall m rd (reg opts) (epochs opts) (shuffle opts) # ev
        \<and> reader_paths ev = []
        \<and> set (dump_paths ev) \<subseteq> {f_model}
        \<and> (snd (run_training E opts f_model rd m s) = Returned \<longrightarrow> dump_paths ev = [f_model])"
proof (cases "model_train E m rd (reg opts) (epochs opts) (shuffle opts) (heap s)")
  case (Inl e)
  then show ?thesis by (simp add: run_training_def Let_def)
next
  case (Inr h)
  let ?s1 = "emit (TrainCall m rd (reg opts) (epochs opts) (shuffle opts)) s"
  let ?p = "if stats opts then print_stats E m (?s1\<lparr>heap := h\<rparr>) else (?s1\<lparr>heap := h\<rparr>, None)"
  obtain ev where ev: "trace (fst ?p) = trace (?s1\<lparr>heap := h\<rparr>) @ ev"
      "reader_paths ev = []" "dump_paths ev = []"
    using print_stats_trace [of E m "?s1\<lparr>heap := h\<rparr>"] by (cases "stats opts") auto
  obtain s2 r where p: "?p = (s2, r)" by (cases ?p)
  with ev have s2: "trace s2 = trace s @ TrainCall m rd (reg opts) (epochs opts) (shuffle opts) # ev"
    by simp
  show ?thesis
  proof (cases r)
    case (Some e)
    with Inr p s2 ev show ?thesis by (simp add: run_training_def Let_def)
  next
    case None
    with Inr p s2 ev show ?thesis
      by (cases "compressed_dump E f_model m (heap s2)")
         (simp_all add: run_training_def Let_def)
  qed
qed

lemma run_training_prefix:
  "prefix (trace s @ [TrainCall m rd (reg opts) (epochs opts) (shuffle opts)])
     (trace (fst (run_training E opts f_model rd m s)))"
  using run_training_trace [of E opts f_model rd m s] by (auto simp add: prefix_def)

lemma build_plain_ok:
  assumes "GreedySVMTagger E fd hd' (PStr (lang opts)) (verbose opts) (heap s) = Inr (m, h2)"
    and "feature_extraction E m rd (minc opts) (use_eph opts) h2 = Inr h3"
  shows "build_plain E opts fd hd' rd s =
           (s\<lparr>heap := h3,
              trace := trace s @ [NewTagger fd hd' (PStr (lang opts)) (verbose opts),
                                  FeatureExtraction m rd (minc opts) (use_eph opts)]\<rparr>,
            Inr m)"
  using assms by (simp add: build_plain_def Let_def emit_def)

lemma train_body_plain:
  assumes "Conll03Reader E f_train (PStr (lang opts)) (heap s1) = Inr (rd, h1)"
    and "aso opts = None \<or> aso opts = Some []"
  shows "train_body E opts f_train f_model fd hd' s1 =
           (case build_plain E opts fd hd' rd
                   ((emit (NewReader f_train (PStr (lang opts))) s1)\<lparr>heap := h1\<rparr>) of
              (s2, Inl e) \<Rightarrow> (s2, Raised e)
            | (s2, Inr model) \<Rightarrow> run_training E opts f_model rd model s2)"
  using assms by (auto simp add: train_body_def build_model_def Let_def)

lemma run_training_train_fails:
  assumes "model_train E m rd (reg opts) (epochs opts) (shuffle opts) (heap s) = Inl e"
  shows "run_training E opts f_model rd m s =
           (emit (TrainCall m rd (reg opts) (epochs opts) (shuffle opts)) s, Raised e)"
  using assms by (simp add: run_training_def Let_def)

lemma run_training_stats_fails:
  assumes "model_train E m rd (reg opts) (epochs opts) (shuffle opts) (heap s) = Inr h4"
    and "(if stats opts
          then print_stats E m
                 ((emit (TrainCall m rd (reg opts) (epochs opts) (shuffle opts)) s)\<lparr>heap := h4\<rparr>)
          else ((emit (TrainCall m rd (reg opts) (epochs opts) (shuffle opts)) s)\<lparr>heap := h4\<rparr>,
                None)) = (s3, Some e)"
  shows "run_training E opts f_model rd m s = (s3, Raised e)"
  using assms by (simp add: run_training_def Let_def)

lemma run_training_saves:
  assumes "model_train E m rd (reg opts) (epochs opts) (shuffle opts) (heap s) = Inr h4"
    and "(if stats opts
          then print_stats E m
                 ((emit (TrainCall m rd (reg opts) (epochs opts) (shuffle opts)) s)\<lparr>heap := h4\<rparr>)
          else ((emit (TrainCall m rd (reg opts) (epochs opts) (shuffle opts)) s)\<lparr>heap := h4\<rparr>,
                None)) = (s3, None)"
  shows "run_training E opts f_model rd m s =
           (case compressed_dump E f_model m (heap s3) of
              Inl e \<Rightarrow> (emit (Dump f_model m) s3, Raised e)
            | Inr h5 \<Rightarrow> ((emit (Dump f_model m) s3)\<lparr>heap := h5\<rparr>, Returned))"
  using assms by (simp add: run_training_def Let_def)

lemma train_body_reader_fails:
  assumes "Conll03Reader E f_train (PStr (lang opts)) (heap s1) = Inl e"
  shows "train_body E opts f_train f_model fd hd' s1 =
           (emit (NewReader f_train (PStr (lang opts))) s1, Raised e)"
  using assms by (simp add: train_body_def Let_def)

lemma train_body_built:
  assumes "Conll03Reader E f_train (PStr (lang opts)) (heap s1) = Inr (rd, h1)"
    and "build_model E opts fd hd' rd
           ((emit (NewReader f_train (PStr (lang opts))) s1)\<lparr>heap := h1\<rparr>) = (s2, Inr m)"
  shows "train_body E opts f_train f_model fd hd' s1 = run_training E opts f_model rd m s2"
  using assms by (simp add: train_body_def Let_def)

text \<open>
  Claim C5. In a run without an ASO model (\<open>options.aso\<close> is the default or the empty
  string), \<open>train\<close> calls the tagger's \<open>feature_extraction\<close> on the training reader with
  the \<open>minc\<close> and \<open>use_eph\<close> of the options, and the next call is the training loop, on
  the store \<open>h3\<close> that feature extraction returned, with the \<open>reg\<close>, \<open>epochs\<close> and
  \<open>shuffle\<close> of the options. What that call of the training loop does decides the run:
  its exception is the outcome of \<open>train\<close>, and the store \<open>h4\<close> it returns is the one
  that is saved (without \<open>--stats\<close>) or described (with \<open>--stats\<close>).
\<close>

theorem plain_run_extracts_then_trains:
  assumes "parse_args E cmdline = Parsed opts argv"
    and "length argv = 2"
    and "aso opts = None \<or> aso opts = Some []"
    and "get_features E opts s = (s1, Inr (fd, hd'))"
    and "Conll03Reader E (argv ! 0) (PStr (lang opts)) (heap s1) = Inr (rd, h1)"
    and "GreedySVMTagger E fd hd' (PStr (lang opts)) (verbose opts) h1 = Inr (m, h2)"
    and "feature_extraction E m rd (minc opts) (use_eph opts) h2 = Inr h3"
  shows "train E cmdline s =
           run_training E opts (argv ! 1) rd m
             (s1\<lparr>heap := h3,
                 trace := trace s1 @
                   [NewReader (argv ! 0) (PStr (lang opts)),
                    NewTagger fd hd' (PStr (lang opts)) (verbose opts),
                    FeatureExtraction m rd (minc opts) (use_eph opts)]\<rparr>)
       \<and> prefix (trace s1 @
                   [NewReader (argv ! 0) (PStr (lang opts)),
                    NewTagger fd hd' (PStr (lang opts)) (verbose opts),
                    FeatureExtraction m rd (minc opts) (use_eph opts),
                    TrainCall m rd (reg opts) (epochs opts) (shuffle opts)])
              (trace (fst (train E cmdline s)))
       \<and> (model_train E m rd (reg opts) (epochs opts) (shuffle opts) h3 = Inl e \<longrightarrow>
            train E cmdline s =
              (s1\<lparr>heap := h3,
                  trace := trace s1 @
                    [NewReader (argv ! 0) (PStr (lang opts)),
                     NewTagger fd hd' (PStr (lang opts)) (verbose opts),
                     FeatureExtraction m rd (minc opts) (use_eph opts),
                     TrainCall m rd (reg opts) (epochs opts) (shuffle opts)]\<rparr>,
               Raised e))
       \<and> (model_train E m rd (reg opts) (epochs opts) (shuffle opts) h3 = Inr h4
          \<and> \<not> stats opts
          \<and> compressed_dump E (argv ! 1) m h4 = Inr h5 \<longrightarrow>
            train E cmdline s =
              (s1\<lparr>heap := h5,
                  trace := trace s1 @
                    [NewReader (argv ! 0) (PStr (lang opts)),
                     NewTagger fd hd' (PStr (lang opts)) (verbose opts),
                     FeatureExtraction m rd (minc opts) (use_eph opts),
                     TrainCall m rd (reg opts) (epochs opts) (shuffle opts),
                     Dump (argv ! 1) m]\<rparr>,
               Returned))
       \<and> (model_train E m rd (reg opts) (epochs opts) (shuffle opts) h3 = Inr h4
          \<and> stats opts
          \<and> describe E m 40 h4 = Inl e \<longrightarrow>
            train E cmdline s =
              (s1\<lparr>heap := h4,
                  trace := trace s1 @
                    [NewReader (argv ! 0) (PStr (lang opts)),
                     NewTagger fd hd' (PStr (lang opts)) (verbose opts),
                     FeatureExtraction m rd (minc opts) (use_eph opts),
                     TrainCall m rd (reg opts) (epochs opts) (shuffle opts),
                     Print Stdout [PStr (replicate 80 (CHR ''_''))] True,
                     Print Stdout [PStr ('' Stats'' @ [CHR 0x0A])] True,
                     Describe m 40]\<rparr>,
               Raised e))"
proof -
  let ?s = "(emit (NewReader (argv ! 0) (PStr (lang opts))) s1)\<lparr>heap := h1\<rparr>"
  let ?t = "s1\<lparr>heap := h3,
                 trace := trace s1 @
                   [NewReader (argv ! 0) (PStr (lang opts)),
                    NewTagger fd hd' (PStr (lang opts)) (verbose opts),
                    FeatureExtraction m rd (minc opts) (use_eph opts)]\<rparr>"
  let ?tc = "TrainCall m rd (reg opts) (epochs opts) (shuffle opts)"
  have ctor: "GreedySVMTagger E fd hd' (PStr (lang opts)) (verbose opts) (heap ?s) = Inr (m, h2)"
    using assms(6) by simp
  have "?s\<lparr>heap := h3,
            trace := trace ?s @ [NewTagger fd hd' (PStr (lang opts)) (verbose opts),
                                 FeatureExtraction m rd (minc opts) (use_eph opts)]\<rparr> = ?t"
    by (simp add: emit_def)
  with build_plain_ok [OF ctor assms(7)]
  have "build_plain E opts fd hd' rd ?s = (?t, Inr m)"
    by simp
  then have eq: "train E cmdline s = run_training E opts (argv ! 1) rd m ?t"
    by (simp add: train_to_body [OF assms(1,2,4)] train_body_plain [OF assms(5,3)])
  have pre: "prefix (trace ?t @ [?tc]) (trace (fst (run_training E opts (argv ! 1) rd m ?t)))"
    by (rule run_training_prefix)
  have fails: "run_training E opts (argv ! 1) rd m ?t = (emit ?tc ?t, Raised e)"
    if "model_train E m rd (reg opts) (epochs opts) (shuffle opts) h3 = Inl e"
    using that by (intro run_training_train_fails) simp
  have saved: "run_training E opts (argv ! 1) rd m ?t =
        ((emit (Dump (argv ! 1) m) ((emit ?tc ?t)\<lparr>heap := h4\<rparr>))\<lparr>heap := h5\<rparr>, Returned)"
    if "model_train E m rd (reg opts) (epochs opts) (shuffle opts) h3 = Inr h4"
      and "\<not> stats opts" and "compressed_dump E (argv ! 1) m h4 = Inr h5"
  proof -
    have 1: "model_train E m rd (reg opts) (epochs opts) (shuffle opts) (heap ?t) = Inr h4"
      using that(1) by simp
    have 2: "(if stats opts then print_stats E m ((emit ?tc ?t)\<lparr>heap := h4\<rparr>)
              else ((emit ?tc ?t)\<lparr>heap := h4\<rparr>, None)) = ((emit ?tc ?t)\<lparr>heap := h4\<rparr>, None)"
      using that(2) by simp
    show ?thesis
      using that(3) by (simp add: run_training_saves [OF 1 2])
  qed
  have stats_fails: "run_training E opts (argv ! 1) rd m ?t =
        (emit (Describe m 40)
           (emit (Print Stdout [PStr ('' Stats'' @ [CHR 0x0A])] True)
              (emit (Print Stdout [PStr (replicate 80 (CHR ''_''))] True)
                 ((emit ?tc ?t)\<lparr>heap := h4\<rparr>))), Raised e)"
    if "model_train E m rd (reg opts) (epochs opts) (shuffle opts) h3 = Inr h4"
      and "stats opts" and "describe E m 40 h4 = Inl e"
  proof -
    have 1: "model_train E m rd (reg opts) (epochs opts) (shuffle opts) (heap ?t) = Inr h4"
      using that(1) by simp
    have "print_stats E m ((emit ?tc ?t)\<lparr>heap := h4\<rparr>) =
        (emit (Describe m 40)
           (emit (Print Stdout [PStr ('' Stats'' @ [CHR 0x0A])] True)
              (emit (Print Stdout [PStr (replicate 80 (CHR ''_''))] True)
                 ((emit ?tc ?t)\<lparr>heap := h4\<rparr>))), Some e)"
      using that(3) by (simp add: print_stats_def Let_def)
    with that(2) show ?thesis
      by (intro run_training_stats_fails [OF 1]) simp
  qed
  show ?thesis
  proof (intro conjI impI)
    show "train E cmdline s = run_training E opts (argv ! 1) rd m ?t"
      by (rule eq)
    show "prefix (trace s1 @
                   [NewReader (argv ! 0) (PStr (lang opts)),
                    NewTagger fd hd' (PStr (lang opts)) (verbose opts),
                    FeatureExtraction m rd (minc opts) (use_eph opts), ?tc])
              (trace (fst (train E cmdline s)))"
      using pre by (simp add: eq)
  next
    assume "model_train E m rd (reg opts) (epochs opts) (shuffle opts) h3 = Inl e"
    from fails [OF this] show "train E cmdline s =
              (s1\<lparr>heap := h3,
                  trace := trace s1 @
                    [NewReader (argv ! 0) (PStr (lang opts)),
                     NewTagger fd hd' (PStr (lang opts)) (verbose opts),
                     FeatureExtraction m rd (minc opts) (use_eph opts), ?tc]\<rparr>,
               Raised e)"
      by (simp add: eq emit_def)
  next
    assume "model_train E m rd (reg opts) (epochs opts) (shuffle opts) h3 = Inr h4
          \<and> \<not> stats opts \<and> compressed_dump E (argv ! 1) m h4 = Inr h5"
    then have "model_train E m rd (reg opts) (epochs opts) (shuffle opts) h3 = Inr h4"
      and "\<not> stats opts" and "compressed_dump E (argv ! 1) m h4 = Inr h5"
      by blast+
    from saved [OF this] show "train E cmdline s =
              (s1\<lparr>heap := h5,
                  trace := trace s1 @
                    [NewReader (argv ! 0) (PStr (lang opts)),
                     NewTagger fd hd' (PStr (lang opts)) (verbose opts),
                     FeatureExtraction m rd (minc opts) (use_eph opts), ?tc,
                     Dump (argv ! 1) m]\<rparr>,
               Returned)"
      by (simp add: eq emit_def)
  next
    assume "model_train E m rd (reg opts) (epochs opts) (shuffle opts) h3 = Inr h4
          \<and> stats opts \<and> describe E m 40 h4 = Inl e"
    then have "model_train E m rd (reg opts) (epochs opts) (shuffle opts) h3 = Inr h4"
      and "stats opts" and "describe E m 40 h4 = Inl e"
      by blast+
    from stats_fails [OF this] show "train E cmdline s =
              (s1\<lparr>heap := h4,
                  trace := trace s1 @
                    [NewReader (argv ! 0) (PStr (lang opts)),
                     NewTagger fd hd' (PStr (lang opts)) (verbose opts),
                     FeatureExtraction m rd (minc opts) (use_eph opts), ?tc,
                     Print Stdout [PStr (replicate 80 (CHR ''_''))] True,
                     Print Stdout [PStr ('' Stats'' @ [CHR 0x0A])] True,
                     Describe m 40]\<rparr>,
               Raised e)"
      by (simp add: eq emit_def)
  qed
qed

subsection \<open>The two file names\<close>

lemma get_features_trace:
  "\<exists>ev. trace (fst (get_features E opts s)) = trace s @ ev
        \<and> reader_paths ev = [] \<and> dump_paths ev = []"
  by (auto simp add: get_features_def import_features_def Let_def
      split: sum.splits prod.splits)

lemma bind_aso_trace:
  "\<exists>ev. trace (fst (bind_aso E opts path s)) = trace s @ ev
        \<and> reader_paths ev = [] \<and> dump_paths ev = []"
  by (auto simp add: bind_aso_def Let_def split: sum.splits prod.splits option.splits)

lemma build_plain_trace:
  "\<exists>ev. trace (fst (build_plain E opts fd hd' rd s)) = trace s @ ev
        \<and> reader_paths ev = [] \<and> dump_paths ev = []"
  by (auto simp add: build_plain_def Let_def split: sum.splits prod.splits)

lemma build_model_trace:
  "\<exists>ev. trace (fst (build_model E opts fd hd' rd s)) = trace s @ ev
        \<and> reader_paths ev = [] \<and> dump_paths ev = []"
  using bind_aso_trace build_plain_trace
  by (simp add: build_model_def split: option.splits)

lemma train_body_trace:
  "\<exists>ev. trace (fst (train_body E opts f_train f_model fd hd' s)) = trace s @ ev
        \<and> reader_paths ev = [f_train]
        \<and> set (dump_paths ev) \<subseteq> {f_model}
        \<and> (snd (train_body E opts f_train f_model fd hd' s) = Returned
             \<longrightarrow> dump_paths ev = [f_model])"
proof (cases "Conll03Reader E f_train (PStr (lang opts)) (heap s)")
  case (Inl e)
  then show ?thesis by (simp add: train_body_def Let_def)
next
  case (Inr p)
  obtain rd h where p: "p = (rd, h)" by (cases p)
  let ?s1 = "(emit (NewReader f_train (PStr (lang opts))) s)\<lparr>heap := h\<rparr>"
  obtain s2 r where b: "build_model E opts fd hd' rd ?s1 = (s2, r)"
    by (cases "build_model E opts fd hd' rd ?s1")
  obtain ev where ev: "trace s2 = trace ?s1 @ ev" "reader_paths ev = []" "dump_paths ev = []"
    using build_model_trace [of E opts fd hd' rd ?s1] b by auto
  show ?thesis
  proof (cases r)
    case (Inl e)
    with Inr p b ev show ?thesis by (simp add: train_body_def Let_def)
  next
    case (Inr m)
    obtain ev' where ev': "trace (fst (run_training E opts f_model rd m s2))
          = trace s2 @ TrainCall m rd (reg opts) (epochs opts) (shuffle opts) # ev'"
        "reader_paths ev' = []" "set (dump_paths ev') \<subseteq> {f_model}"
        "snd (run_training E opts f_model rd m s2) = Returned \<longrightarrow> dump_paths ev' = [f_model]"
      using run_training_trace [of E opts f_model rd m s2] by blast
    from \<open>Conll03Reader E f_train (PStr (lang opts)) (heap s) = Inr p\<close> p b Inr
    have tb: "train_body E opts f_train f_model fd hd' s = run_training E opts f_model rd m s2"
      by (simp add: train_body_def Let_def)
    show ?thesis
      using ev ev' by (simp add: tb)
  qed
qed

lemma train_trace:
  assumes "parse_args E cmdline = Parsed opts argv"
    and "length argv = 2"
  shows "\<exists>ev. trace (fst (train E cmdline s)) = trace s @ ev
        \<and> set (reader_paths ev) \<subseteq> {argv ! 0}
        \<and> set (dump_paths ev) \<subseteq> {argv ! 1}
        \<and> (snd (train E cmdline s) = Returned
             \<longrightarrow> reader_paths ev = [argv ! 0] \<and> dump_paths ev = [argv ! 1])"
proof -
  obtain s1 r where g: "get_features E opts s = (s1, r)"
    by (cases "get_features E opts s")
  obtain ev where ev: "trace s1 = trace s @ ev" "reader_paths ev = []" "dump_paths ev = []"
    using get_features_trace [of E opts s] g by auto
  show ?thesis
  proof (cases r)
    case (Inl out)
    then have "train E cmdline s = (s1, out)"
      using assms g by (simp add: train_def)
    moreover have "out \<noteq> Returned"
      using g Inl by (auto simp add: get_features_def split: sum.splits prod.splits if_splits)
    ultimately show ?thesis using ev by simp
  next
    case (Inr p)
    obtain fd hd' where p: "p = (fd, hd')" by (cases p)
    have tb: "train E cmdline s = train_body E opts (argv ! 0) (argv ! 1) fd hd' s1"
      using assms g Inr p by (simp add: train_def)
    obtain ev' where ev': "trace (fst (train_body E opts (argv ! 0) (argv ! 1) fd hd' s1)) = trace s1 @ ev'"
        "reader_paths ev' = [argv ! 0]" "set (dump_paths ev') \<subseteq> {argv ! 1}"
        "snd (train_body E opts (argv ! 0) (argv ! 1) fd hd' s1) = Returned
           \<longrightarrow> dump_paths ev' = [argv ! 1]"
      using train_body_trace [of E opts "argv ! 0" "argv ! 1" fd hd' s1] by blast
    show ?thesis using ev ev' by (simp add: tb)
  qed
qed

text \<open>
  Claim C7. When the parser returns a number of positional arguments other than two,
  \<open>train\<close> ends in \<open>parser.error\<close>, and that call is the only event of the run. With
  exactly two, every reader the run constructs reads the first argument and every save
  goes to the second; a run that returns has constructed exactly one reader, on the
  first argument, and saved exactly once, to the second. The two calls are the real
  ones: an exception of \<open>Conll03Reader\<close> on the first argument is the outcome of
  \<open>train\<close>, the reader it returns is the one the tagger is built and trained on, and
  what \<open>compressed_dump\<close> on the second argument does with the trained model is the
  end of the run.
\<close>

theorem positional_arguments:
  assumes "parse_args E cmdline = Parsed opts argv"
  shows "(length argv \<noteq> 2 \<longrightarrow>
            train E cmdline s =
              (s\<lparr>trace := trace s @
                   [ParserError ''incorrect number of arguments (use `--help` for help).'']\<rparr>,
               SysExit 2))
       \<and> (length argv = 2 \<longrightarrow>
            take (length (trace s)) (trace (fst (train E cmdline s))) = trace s
          \<and> set (reader_paths (drop (length (trace s)) (trace (fst (train E cmdline s)))))
              \<subseteq> {argv ! 0}
          \<and> set (dump_paths (drop (length (trace s)) (trace (fst (train E cmdline s)))))
              \<subseteq> {argv ! 1}
          \<and> (snd (train E cmdline s) = Returned \<longrightarrow>
                reader_paths (drop (length (trace s)) (trace (fst (train E cmdline s)))) = [argv ! 0]
              \<and> dump_paths (drop (length (trace s)) (trace (fst (train E cmdline s)))) = [argv ! 1]))
       \<and> (length argv = 2
          \<and> get_features E opts s = (s1, Inr (fd, hd'))
          \<and> Conll03Reader E (argv ! 0) (PStr (lang opts)) (heap s1) = Inl e \<longrightarrow>
            train E cmdline s = (emit (NewReader (argv ! 0) (PStr (lang opts))) s1, Raised e))
       \<and> (length argv = 2
          \<and> get_features E opts s = (s1, Inr (fd, hd'))
          \<and> Conll03Reader E (argv ! 0) (PStr (lang opts)) (heap s1) = Inr (rd, h1)
          \<and> build_model E opts fd hd' rd
                ((emit (NewReader (argv ! 0) (PStr (lang opts))) s1)\<lparr>heap := h1\<rparr>) = (s2, Inr m)
          \<and> model_train E m rd (reg opts) (epochs opts) (shuffle opts) (heap s2) = Inr h4
          \<and> (if stats opts
               then print_stats E m
                      ((emit (TrainCall m rd (reg opts) (epochs opts) (shuffle opts)) s2)
                         \<lparr>heap := h4\<rparr>)
               else ((emit (TrainCall m rd (reg opts) (epochs opts) (shuffle opts)) s2)
                       \<lparr>heap := h4\<rparr>, None)) = (s3, None) \<longrightarrow>
            train E cmdline s =
              (case compressed_dump E (argv ! 1) m (heap s3) of
                 Inl e \<Rightarrow> (emit (Dump (argv ! 1) m) s3, Raised e)
               | Inr h5 \<Rightarrow> ((emit (Dump (argv ! 1) m) s3)\<lparr>heap := h5\<rparr>, Returned)))"
proof (intro conjI impI)
  assume "length argv \<noteq> 2"
  with assms show "train E cmdline s =
              (s\<lparr>trace := trace s @
                   [ParserError ''incorrect number of arguments (use `--help` for help).'']\<rparr>,
               SysExit 2)"
    by (simp add: train_def emit_def)
next
  assume two: "length argv = 2"
  obtain ev where ev: "trace (fst (train E cmdline s)) = trace s @ ev"
      "set (reader_paths ev) \<subseteq> {argv ! 0}" "set (dump_paths ev) \<subseteq> {argv ! 1}"
      "snd (train E cmdline s) = Returned
         \<longrightarrow> reader_paths ev = [argv ! 0] \<and> dump_paths ev = [argv ! 1]"
    using train_trace [OF assms two, of s] by blast
  show "take (length (trace s)) (trace (fst (train E cmdline s))) = trace s"
    using ev by simp
  show "set (reader_paths (drop (length (trace s)) (trace (fst (train E cmdline s)))))
          \<subseteq> {argv ! 0}"
    using ev by simp
  show "set (dump_paths (drop (length (trace s)) (trace (fst (train E cmdline s)))))
          \<subseteq> {argv ! 1}"
    using ev by simp
  assume "snd (train E cmdline s) = Returned"
  with ev show "reader_paths (drop (length (trace s)) (trace (fst (train E cmdline s))))
                  = [argv ! 0]"
    by simp
  from \<open>snd (train E cmdline s) = Returned\<close> ev
  show "dump_paths (drop (length (trace s)) (trace (fst (train E cmdline s)))) = [argv ! 1]"
    by simp
next
  assume a: "length argv = 2
          \<and> get_features E opts s = (s1, Inr (fd, hd'))
          \<and> Conll03Reader E (argv ! 0) (PStr (lang opts)) (heap s1) = Inl e"
  then have two: "length argv = 2" and g: "get_features E opts s = (s1, Inr (fd, hd'))"
    and r: "Conll03Reader E (argv ! 0) (PStr (lang opts)) (heap s1) = Inl e"
    by blast+
  show "train E cmdline s = (emit (NewReader (argv ! 0) (PStr (lang opts))) s1, Raised e)"
    unfolding train_to_body [OF assms two g] by (rule train_body_reader_fails [OF r])
next
  assume a: "length argv = 2
          \<and> get_features E opts s = (s1, Inr (fd, hd'))
          \<and> Conll03Reader E (argv ! 0) (PStr (lang opts)) (heap s1) = Inr (rd, h1)
          \<and> build_model E opts fd hd' rd
                ((emit (NewReader (argv ! 0) (PStr (lang opts))) s1)\<lparr>heap := h1\<rparr>) = (s2, Inr m)
          \<and> model_train E m rd (reg opts) (epochs opts) (shuffle opts) (heap s2) = Inr h4
          \<and> (if stats opts
               then print_stats E m
                      ((emit (TrainCall m rd (reg opts) (epochs opts) (shuffle opts)) s2)
                         \<lparr>heap := h4\<rparr>)
               else ((emit (TrainCall m rd (reg opts) (epochs opts) (shuffle opts)) s2)
                       \<lparr>heap := h4\<rparr>, None)) = (s3, None)"
  then have two: "length argv = 2" and g: "get_features E opts s = (s1, Inr (fd, hd'))"
    and r: "Conll03Reader E (argv ! 0) (PStr (lang opts)) (heap s1) = Inr (rd, h1)"
    and b: "build_model E opts fd hd' rd
                ((emit (NewReader (argv ! 0) (PStr (lang opts))) s1)\<lparr>heap := h1\<rparr>) = (s2, Inr m)"
    and t: "model_train E m rd (reg opts) (epochs opts) (shuffle opts) (heap s2) = Inr h4"
    and p: "(if stats opts
               then print_stats E m
                      ((emit (TrainCall m rd (reg opts) (epochs opts) (shuffle opts)) s2)
                         \<lparr>heap := h4\<rparr>)
               else ((emit (TrainCall m rd (reg opts) (epochs opts) (shuffle opts)) s2)
                       \<lparr>heap := h4\<rparr>, None)) = (s3, None)"
    by blast+
  show "train E cmdline s =
              (case compressed_dump E (argv ! 1) m (heap s3) of
                 Inl e \<Rightarrow> (emit (Dump (argv ! 1) m) s3, Raised e)
               | Inr h5 \<Rightarrow> ((emit (Dump (argv ! 1) m) s3)\<lparr>heap := h5\<rparr>, Returned))"
    unfolding train_to_body [OF assms two g] train_body_built [OF r b]
    by (rule run_training_saves [OF t p])
qed

subsection \<open>\<open>predict\<close>\<close>

lemma predict_three:
  assumes "{model_file, test_file, pred_file} \<inter> {''--help'', ''-h''} = {}"
  shows "predict E [prog, model_file, test_file, pred_file] s
           = predict_run E [model_file, test_file, pred_file] s"
  using assms by (simp add: predict_def)

lemma predict_run_reach:
  assumes "compressed_load E model_file (heap s) = Inr (model, h1)"
    and "getattr h1 model ''use_eph'' = Inr ueph"
    and "getattr h1 model ''use_aso'' = Inr uaso"
    and "getattr h1 model ''lang'' = Inr mlang"
    and "Conll03Reader E test_file mlang h1 = Inr (rd, h2)"
  shows "predict_run E [model_file, test_file, pred_file] s =
           write_output E rd model pred_file
             (s\<lparr>trace := trace s @ predict_events model_file test_file ueph uaso mlang,
                heap := h2\<rparr>)"
  using assms by (simp add: predict_run_def Let_def emit_def predict_events_def)

lemma predict_load_fails:
  assumes "compressed_load E model_file (heap s) = Inl e"
  shows "predict_run E [model_file, test_file, pred_file] s =
           (s\<lparr>trace := trace s @
                [Print Stderr [PStr ''loading tagger...''] False, Flush Stderr, Load model_file]\<rparr>,
            Raised e)"
  using assms by (simp add: predict_run_def Let_def emit_def)

lemma write_output_open_fails:
  assumes "pred_file \<noteq> ''-''"
    and "open_file E pred_file ''w+'' = Some e"
  shows "write_output E rd model pred_file s =
           (s\<lparr>trace := trace s @ [Open pred_file ''w+'']\<rparr>, Raised e)"
  using assms by (simp add: write_output_def open_output_def Let_def emit_def)


lemma write_output_ok:
  assumes "pred_file \<noteq> ''-'' \<longrightarrow> open_file E pred_file ''w+'' = None"
    and "write_sent_predictions E rd model
           (if pred_file = ''-'' then Stdout else FileObj pred_file ''w+'') False (heap s) = Inr h"
  shows "write_output E rd model pred_file s =
          (s\<lparr>trace := trace s @ (if pred_file = ''-'' then [] else [Open pred_file ''w+''])
               @ [WritePredictions rd model
                    (if pred_file = ''-'' then Stdout else FileObj pred_file ''w+'') False,
                  Close (if pred_file = ''-'' then Stdout else FileObj pred_file ''w+''),
                  Print Stderr [PStr ''processed input in %.4fs sec.'',
                                PFloat (time E 1 - time E 0)] True],
              heap := h,
              closed_streams :=
                insert (if pred_file = ''-'' then Stdout else FileObj pred_file ''w+'')
                  (closed_streams s)\<rparr>,
           Returned)"
  using assms by (auto simp add: write_output_def open_output_def Let_def emit_def)

lemma written_to_append [simp]: "written_to (xs @ ys) = written_to xs @ written_to ys"
  by (induction xs rule: written_to.induct) simp_all

lemma opened_append [simp]: "opened (xs @ ys) = opened xs @ opened ys"
  by (induction xs rule: opened.induct) simp_all


text \<open>
  Claim C8. An exception raised by \<open>compressed_load\<close> or by \<open>open\<close> in \<open>predict\<close> leaves
  the script as it is: the outcome is that exception, the failed call is the last event
  and it was made once, and the process status is not zero.
\<close>

theorem predict_failures_propagate:
  assumes "{model_file, test_file, pred_file} \<inter> {''--help'', ''-h''} = {}"
  shows "(compressed_load E model_file (heap s) = Inl e \<longrightarrow>
            predict E [prog, model_file, test_file, pred_file] s =
              (s\<lparr>trace := trace s @
                   [Print Stderr [PStr ''loading tagger...''] False, Flush Stderr,
                    Load model_file]\<rparr>,
               Raised e))
       \<and> (compressed_load E model_file (heap s) = Inr (model, h1)
          \<and> getattr h1 model ''use_eph'' = Inr ueph
          \<and> getattr h1 model ''use_aso'' = Inr uaso
          \<and> getattr h1 model ''lang'' = Inr mlang
          \<and> Conll03Reader E test_file mlang h1 = Inr (rd, h2)
          \<and> pred_file \<noteq> ''-''
          \<and> open_file E pred_file ''w+'' = Some e \<longrightarrow>
            predict E [prog, model_file, test_file, pred_file] s =
              (s\<lparr>trace := trace s @ predict_events model_file test_file ueph uaso mlang
                          @ [Open pred_file ''w+''],
                  heap := h2\<rparr>,
               Raised e))
       \<and> exit_status (Raised e) \<noteq> 0"
  by (simp add: predict_three [OF assms] predict_load_fails predict_run_reach
      write_output_open_fails exit_status_def)

text \<open>
  Claim C10. When \<open>write_sent_predictions\<close> returns, \<open>predict\<close> closes the stream it
  wrote to, whichever it is. For \<open>PRED_FILE\<close> equal to \<open>-\<close> that stream is standard
  output, which is closed in the final state.
\<close>

theorem predict_closes_output:
  assumes "{model_file, test_file, pred_file} \<inter> {''--help'', ''-h''} = {}"
    and "compressed_load E model_file (heap s) = Inr (model, h1)"
    and "getattr h1 model ''use_eph'' = Inr ueph"
    and "getattr h1 model ''use_aso'' = Inr uaso"
    and "getattr h1 model ''lang'' = Inr mlang"
    and "Conll03Reader E test_file mlang h1 = Inr (rd, h2)"
    and "pred_file \<noteq> ''-'' \<longrightarrow> open_file E pred_file ''w+'' = None"
    and "write_sent_predictions E rd model
           (if pred_file = ''-'' then Stdout else FileObj pred_file ''w+'') False h2 = Inr h3"
  shows "predict E [prog, model_file, test_file, pred_file] s =
          (s\<lparr>trace := trace s @ predict_events model_file test_file ueph uaso mlang
               @ (if pred_file = ''-'' then [] else [Open pred_file ''w+''])
               @ [WritePredictions rd model
                    (if pred_file = ''-'' then Stdout else FileObj pred_file ''w+'') False,
                  Close (if pred_file = ''-'' then Stdout else FileObj pred_file ''w+''),
                  Print Stderr [PStr ''processed input in %.4fs sec.'',
                                PFloat (time E 1 - time E 0)] True],
              heap := h3,
              closed_streams :=
                insert (if pred_file = ''-'' then Stdout else FileObj pred_file ''w+'')
                  (closed_streams s)\<rparr>,
           Returned)
       \<and> (pred_file = ''-'' \<longrightarrow>
            Stdout \<in> closed_streams (fst (predict E [prog, model_file, test_file, pred_file] s)))"
proof -
  let ?s = "s\<lparr>trace := trace s @ predict_events model_file test_file ueph uaso mlang,
                heap := h2\<rparr>"
  have eq: "predict E [prog, model_file, test_file, pred_file] s
              = write_output E rd model pred_file ?s"
    by (simp add: predict_three [OF assms(1)] predict_run_reach [OF assms(2-6)])
  have w: "write_sent_predictions E rd model
           (if pred_file = ''-'' then Stdout else FileObj pred_file ''w+'') False (heap ?s) = Inr h3"
    using assms(8) by simp
  show ?thesis
    unfolding eq write_output_ok [OF assms(7) w] by simp
qed

subsection \<open>The ASO model and the options\<close>

text \<open>
  Claim C1. With an ASO model loaded and its tagger constructed, if \<open>options.use_eph\<close>
  differs from the model's \<open>use_eph\<close>, or \<open>options.lang\<close> from the model's \<open>lang\<close>, then
  \<open>train\<close> raises \<open>Error\<close>. The construction of the tagger is the last event, so the
  run has made no training step.
\<close>

theorem aso_mismatch_is_fatal:
  assumes "parse_args E cmdline = Parsed opts argv"
    and "length argv = 2"
    and "get_features E opts s = (s1, Inr (fd, hd'))"
    and "Conll03Reader E (argv ! 0) (PStr (lang opts)) (heap s1) = Inr (rd, h1)"
    and "aso opts = Some path"
    and "path \<noteq> []"
    and "compressed_load E path h1 = Inr (am, h2)"
    and "getattr h2 am ''fd'' = Inr afd"
    and "getattr h2 am ''hd'' = Inr ahd"
    and "getattr h2 am ''lang'' = Inr alang"
    and "GreedySVMTagger E afd ahd alang (verbose opts) h2 = Inr (m, h3)"
    and "getattr h3 am ''use_eph'' = Inr aeph"
    and "py_ne (PBool (use_eph opts)) aeph
         \<or> getattr h3 am ''lang'' = Inr alang' \<and> py_ne (PStr (lang opts)) alang'"
  shows "snd (train E cmdline s) =
           Raised (Error (if py_ne (PBool (use_eph opts)) aeph
                          then ''options.use_eph != aso_model.use_eph.''
                          else ''options.lang != aso_model.lang.''))
       \<and> trace (fst (train E cmdline s)) =
           trace s1 @ NewReader (argv ! 0) (PStr (lang opts))
             # aso_events path afd ahd alang (verbose opts)
       \<and> filter is_training_step (trace (fst (train E cmdline s)))
           = filter is_training_step (trace s)"
  by (simp add: train_aso_mismatch [OF assms] get_features_ok_trace [OF assms(3)]
      aso_events_def)

text \<open>
  Claim C9. When \<open>train\<close> raises the mismatch \<open>Error\<close>, the store is the one the tagger's
  constructor returned: \<open>train\<close> has assigned no attribute, and each of \<open>V\<close>, \<open>T\<close>,
  \<open>use_eph\<close>, \<open>minc\<close>, \<open>fidx_map\<close>, \<open>tidx_map\<close>, \<open>tag_map\<close>, \<open>use_aso\<close> and \<open>aso_model\<close>
  that the constructor left unset is still unset.
\<close>

theorem aso_mismatch_binds_nothing:
  assumes "parse_args E cmdline = Parsed opts argv"
    and "length argv = 2"
    and "get_features E opts s = (s1, Inr (fd, hd'))"
    and "Conll03Reader E (argv ! 0) (PStr (lang opts)) (heap s1) = Inr (rd, h1)"
    and "aso opts = Some path"
    and "path \<noteq> []"
    and "compressed_load E path h1 = Inr (am, h2)"
    and "getattr h2 am ''fd'' = Inr afd"
    and "getattr h2 am ''hd'' = Inr ahd"
    and "getattr h2 am ''lang'' = Inr alang"
    and "GreedySVMTagger E afd ahd alang (verbose opts) h2 = Inr (m, h3)"
    and "getattr h3 am ''use_eph'' = Inr aeph"
    and "py_ne (PBool (use_eph opts)) aeph
         \<or> getattr h3 am ''lang'' = Inr alang' \<and> py_ne (PStr (lang opts)) alang'"
  shows "(\<exists>msg. snd (train E cmdline s) = Raised (Error msg))
       \<and> heap (fst (train E cmdline s)) = h3
       \<and> (\<forall>a \<in> set bind_targets.
             h3 m a = None \<longrightarrow>
             getattr (heap (fst (train E cmdline s))) (PRef m) a = Inl AttributeError)"
  by (simp add: train_aso_mismatch [OF assms] getattr_def)

text \<open>
  Claim C2. With an ASO model whose \<open>use_eph\<close> and \<open>lang\<close> equal those of the options,
  the binding raises nothing and training starts on a store \<open>h4\<close> in which the tagger's
  \<open>V\<close>, \<open>T\<close>, \<open>fidx_map\<close>, \<open>tidx_map\<close> and \<open>tag_map\<close> hold the very values that the ASO
  model's \<open>vocabulary\<close>, \<open>tags\<close>, \<open>fidx_map\<close>, \<open>tidx_map\<close> and \<open>tag_map\<close> hold (the same
  references), \<open>aso_model\<close> is the loaded model itself and \<open>use_aso\<close> is \<open>True\<close>. No
  object other than the tagger has changed, so nothing was copied.
\<close>

theorem aso_match_binds_by_reference:
  assumes "parse_args E cmdline = Parsed opts argv"
    and "length argv = 2"
    and "get_features E opts s = (s1, Inr (fd, hd'))"
    and "Conll03Reader E (argv ! 0) (PStr (lang opts)) (heap s1) = Inr (rd, h1)"
    and "aso opts = Some path"
    and "path \<noteq> []"
    and "compressed_load E path h1 = Inr (am, h2)"
    and "getattr h2 am ''fd'' = Inr afd"
    and "getattr h2 am ''hd'' = Inr ahd"
    and "getattr h2 am ''lang'' = Inr alang"
    and "GreedySVMTagger E afd ahd alang (verbose opts) h2 = Inr (m, h3)"
    and "getattr h3 am ''use_eph'' = Inr aeph"
    and "\<not> py_ne (PBool (use_eph opts)) aeph"
    and "getattr h3 am ''lang'' = Inr alang'"
    and "\<not> py_ne (PStr (lang opts)) alang'"
    and "getattr h3 am ''vocabulary'' = Inr voc"
    and "getattr h3 am ''tags'' = Inr tg"
    and "getattr h3 am ''minc'' = Inr mc"
    and "getattr h3 am ''fidx_map'' = Inr fi"
    and "getattr h3 am ''tidx_map'' = Inr ti"
    and "getattr h3 am ''tag_map'' = Inr tm"
    and "h4 = fst (bind_attrs am m h3)"
  shows "snd (bind_attrs am m h3) = None
       \<and> train E cmdline s =
           run_training E opts (argv ! 1) rd m
             (s1\<lparr>heap := h4,
                 trace := trace s1 @ NewReader (argv ! 0) (PStr (lang opts))
                            # aso_events path afd ahd alang (verbose opts)\<rparr>)
       \<and> getattr h4 (PRef m) ''V'' = Inr voc \<and> getattr h4 am ''vocabulary'' = Inr voc
       \<and> getattr h4 (PRef m) ''T'' = Inr tg \<and> getattr h4 am ''tags'' = Inr tg
       \<and> getattr h4 (PRef m) ''fidx_map'' = Inr fi \<and> getattr h4 am ''fidx_map'' = Inr fi
       \<and> getattr h4 (PRef m) ''tidx_map'' = Inr ti \<and> getattr h4 am ''tidx_map'' = Inr ti
       \<and> getattr h4 (PRef m) ''tag_map'' = Inr tm \<and> getattr h4 am ''tag_map'' = Inr tm
       \<and> getattr h4 (PRef m) ''aso_model'' = Inr am
       \<and> getattr h4 (PRef m) ''use_aso'' = Inr (PBool True)
       \<and> (\<forall>r. r \<noteq> m \<longrightarrow> h4 r = h3 r)"
proof -
  note b = bind_attrs_ok [OF assms(16,17,12,18-21), of m]
  have h4: "bind_attrs am m h3 = (h4, None)"
    using b assms(22) by simp
  have run: "train E cmdline s =
           run_training E opts (argv ! 1) rd m
             (s1\<lparr>heap := h4,
                 trace := trace s1 @ NewReader (argv ! 0) (PStr (lang opts))
                            # aso_events path afd ahd alang (verbose opts)\<rparr>)"
    by (rule train_aso_bound [OF assms(1-15) h4])
  have h4': "h4 = h3(m := (h3 m)(''V'' \<mapsto> voc, ''T'' \<mapsto> tg, ''use_eph'' \<mapsto> aeph, ''minc'' \<mapsto> mc,
                ''fidx_map'' \<mapsto> fi, ''tidx_map'' \<mapsto> ti, ''tag_map'' \<mapsto> tm,
                ''use_aso'' \<mapsto> PBool True, ''aso_model'' \<mapsto> am))"
    using b assms(22) by simp
  have own: "getattr h4 (PRef m) ''V'' = Inr voc" "getattr h4 (PRef m) ''T'' = Inr tg"
      "getattr h4 (PRef m) ''fidx_map'' = Inr fi" "getattr h4 (PRef m) ''tidx_map'' = Inr ti"
      "getattr h4 (PRef m) ''tag_map'' = Inr tm" "getattr h4 (PRef m) ''aso_model'' = Inr am"
      "getattr h4 (PRef m) ''use_aso'' = Inr (PBool True)"
    by (simp_all add: h4' getattr_def)
  have kept: "getattr h4 am ''vocabulary'' = Inr voc" "getattr h4 am ''tags'' = Inr tg"
      "getattr h4 am ''fidx_map'' = Inr fi" "getattr h4 am ''tidx_map'' = Inr ti"
      "getattr h4 am ''tag_map'' = Inr tm"
    using assms(16,17,19-21)
    by (auto simp add: h4' getattr_def split: pyval.splits option.splits)
  have rest: "\<forall>r. r \<noteq> m \<longrightarrow> h4 r = h3 r"
    by (simp add: h4')
  from h4 run own kept rest show ?thesis by simp
qed

lemma bind_aso_minc: "bind_aso E (opts\<lparr>minc := k\<rparr>) path s = bind_aso E opts path s"
  by (simp add: bind_aso_def Let_def cong: sum.case_cong prod.case_cong if_cong)

lemma run_training_minc:
  "run_training E (opts\<lparr>minc := k\<rparr>) f_model rd m s = run_training E opts f_model rd m s"
  by (simp add: run_training_def Let_def cong: sum.case_cong prod.case_cong if_cong)

lemma train_body_aso_independent:
  assumes "aso opts = Some path" and "path \<noteq> []"
  shows "train_body E (opts\<lparr>minc := k\<rparr>) f_train f_model fd2 hd2 s
           = train_body E opts f_train f_model fd hd' s"
  using assms
  by (simp add: train_body_def build_model_def bind_aso_minc run_training_minc Let_def
      cong: sum.case_cong prod.case_cong if_cong)

text \<open>
  Claim C4, amended. With an ASO model path given: (1) a feature module that cannot be
  imported still ends the run with \<open>sys.exit(-2)\<close>, before anything is loaded; (2)
  after a successful import the run is the same whatever \<open>fd\<close> and \<open>hd\<close> the module
  holds and whatever \<open>--min-count\<close> is; (3) the tagger is constructed from the ASO
  model's \<open>fd\<close>, \<open>hd\<close> and \<open>lang\<close>, there is no feature extraction, and its \<open>V\<close>, \<open>T\<close>,
  \<open>minc\<close> and \<open>use_eph\<close> are the ASO model's \<open>vocabulary\<close>, \<open>tags\<close>, \<open>minc\<close> and
  \<open>use_eph\<close>; (4) \<open>--eph\<close> is not ignored: it is compared with the ASO model's
  \<open>use_eph\<close>, and where the two differ \<open>train\<close> raises \<open>Error\<close> with the tagger
  constructed and nothing bound.
\<close>

theorem aso_overrides_feature_module:
  assumes "parse_args E cmdline = Parsed opts argv"
    and "length argv = 2"
    and "aso opts = Some path"
    and "path \<noteq> []"
  shows "(import_module E (''nut.ner.features.'' @ feature_module opts) [feature_module opts]
            (heap s) = Inl ImportError \<longrightarrow>
          snd (train E cmdline s) = SysExit (- 2)
        \<and> trace (fst (train E cmdline s)) = trace s @
            [Import (''nut.ner.features.'' @ feature_module opts) [feature_module opts],
             Print Stdout
               [PStr (''Error: cannot import feature extractors from '' @ feature_module opts)]
               True])
       \<and> (get_features E opts s = (s1, Inr (fd, hd')) \<longrightarrow>
          train E cmdline s
            = train_body E (opts\<lparr>minc := k\<rparr>) (argv ! 0) (argv ! 1) fd2 hd2 s1)
       \<and> (get_features E opts s = (s1, Inr (fd, hd'))
          \<and> Conll03Reader E (argv ! 0) (PStr (lang opts)) (heap s1) = Inr (rd, h1)
          \<and> compressed_load E path h1 = Inr (am, h2)
          \<and> getattr h2 am ''fd'' = Inr afd
          \<and> getattr h2 am ''hd'' = Inr ahd
          \<and> getattr h2 am ''lang'' = Inr alang
          \<and> GreedySVMTagger E afd ahd alang (verbose opts) h2 = Inr (m, h3)
          \<and> getattr h3 am ''use_eph'' = Inr aeph
          \<and> \<not> py_ne (PBool (use_eph opts)) aeph
          \<and> getattr h3 am ''lang'' = Inr alang'
          \<and> \<not> py_ne (PStr (lang opts)) alang'
          \<and> getattr h3 am ''vocabulary'' = Inr voc
          \<and> getattr h3 am ''tags'' = Inr tg
          \<and> getattr h3 am ''minc'' = Inr mc
          \<and> getattr h3 am ''fidx_map'' = Inr fi
          \<and> getattr h3 am ''tidx_map'' = Inr ti
          \<and> getattr h3 am ''tag_map'' = Inr tm \<longrightarrow>
          train E cmdline s =
            run_training E opts (argv ! 1) rd m
              (s1\<lparr>heap := fst (bind_attrs am m h3),
                  trace := trace s1 @
                    [NewReader (argv ! 0) (PStr (lang opts)),
                     Print Stdout [PStr ''Loading ASO model...''] False, Flush Stdout,
                     Load path, Print Stdout [PStr ''[done]''] True,
                     NewTagger afd ahd alang (verbose opts)]\<rparr>)
        \<and> getattr (fst (bind_attrs am m h3)) (PRef m) ''V'' = Inr voc
        \<and> getattr (fst (bind_attrs am m h3)) (PRef m) ''T'' = Inr tg
        \<and> getattr (fst (bind_attrs am m h3)) (PRef m) ''minc'' = Inr mc
        \<and> getattr (fst (bind_attrs am m h3)) (PRef m) ''use_eph'' = Inr aeph)
       \<and> (get_features E opts s = (s1, Inr (fd, hd'))
          \<and> Conll03Reader E (argv ! 0) (PStr (lang opts)) (heap s1) = Inr (rd, h1)
          \<and> compressed_load E path h1 = Inr (am, h2)
          \<and> getattr h2 am ''fd'' = Inr afd
          \<and> getattr h2 am ''hd'' = Inr ahd
          \<and> getattr h2 am ''lang'' = Inr alang
          \<and> GreedySVMTagger E afd ahd alang (verbose opts) h2 = Inr (m, h3)
          \<and> getattr h3 am ''use_eph'' = Inr aeph
          \<and> py_ne (PBool (use_eph opts)) aeph \<longrightarrow>
          train E cmdline s =
            (s1\<lparr>heap := h3,
                trace := trace s1 @
                  [NewReader (argv ! 0) (PStr (lang opts)),
                   Print Stdout [PStr ''Loading ASO model...''] False, Flush Stdout,
                   Load path, Print Stdout [PStr ''[done]''] True,
                   NewTagger afd ahd alang (verbose opts)]\<rparr>,
             Raised (Error ''options.use_eph != aso_model.use_eph.'')))"
proof (intro conjI impI)
  assume imp: "import_module E (''nut.ner.features.'' @ feature_module opts)
                 [feature_module opts] (heap s) = Inl ImportError"
  have t: "train E cmdline s = (fst (get_features E opts s), SysExit (- 2))"
    using assms(1,2) by (simp add: train_def get_features_import_error [OF imp])
  show "snd (train E cmdline s) = SysExit (- 2)"
    by (simp add: t)
  show "trace (fst (train E cmdline s)) = trace s @
            [Import (''nut.ner.features.'' @ feature_module opts) [feature_module opts],
             Print Stdout
               [PStr (''Error: cannot import feature extractors from '' @ feature_module opts)]
               True]"
    by (simp add: t get_features_import_error [OF imp])
next
  assume g: "get_features E opts s = (s1, Inr (fd, hd'))"
  show "train E cmdline s
          = train_body E (opts\<lparr>minc := k\<rparr>) (argv ! 0) (argv ! 1) fd2 hd2 s1"
    by (simp add: train_to_body [OF assms(1,2) g]
        train_body_aso_independent [OF assms(3,4), of E k _ _ fd2 hd2 s1 fd hd'])
next
  assume a: "get_features E opts s = (s1, Inr (fd, hd'))
          \<and> Conll03Reader E (argv ! 0) (PStr (lang opts)) (heap s1) = Inr (rd, h1)
          \<and> compressed_load E path h1 = Inr (am, h2)
          \<and> getattr h2 am ''fd'' = Inr afd
          \<and> getattr h2 am ''hd'' = Inr ahd
          \<and> getattr h2 am ''lang'' = Inr alang
          \<and> GreedySVMTagger E afd ahd alang (verbose opts) h2 = Inr (m, h3)
          \<and> getattr h3 am ''use_eph'' = Inr aeph
          \<and> \<not> py_ne (PBool (use_eph opts)) aeph
          \<and> getattr h3 am ''lang'' = Inr alang'
          \<and> \<not> py_ne (PStr (lang opts)) alang'
          \<and> getattr h3 am ''vocabulary'' = Inr voc
          \<and> getattr h3 am ''tags'' = Inr tg
          \<and> getattr h3 am ''minc'' = Inr mc
          \<and> getattr h3 am ''fidx_map'' = Inr fi
          \<and> getattr h3 am ''tidx_map'' = Inr ti
          \<and> getattr h3 am ''tag_map'' = Inr tm"
  then have b: "bind_attrs am m h3 =
           (h3(m := (h3 m)(''V'' \<mapsto> voc, ''T'' \<mapsto> tg, ''use_eph'' \<mapsto> aeph, ''minc'' \<mapsto> mc,
                ''fidx_map'' \<mapsto> fi, ''tidx_map'' \<mapsto> ti, ''tag_map'' \<mapsto> tm,
                ''use_aso'' \<mapsto> PBool True, ''aso_model'' \<mapsto> am)), None)"
    by (simp add: bind_attrs_ok)
  then have b': "bind_attrs am m h3 = (fst (bind_attrs am m h3), None)"
    by simp
  from a have "train E cmdline s =
            run_training E opts (argv ! 1) rd m
              (s1\<lparr>heap := fst (bind_attrs am m h3),
                  trace := trace s1 @ NewReader (argv ! 0) (PStr (lang opts))
                             # aso_events path afd ahd alang (verbose opts)\<rparr>)"
    using train_aso_bound [OF assms(1,2) _ _ assms(3,4) _ _ _ _ _ _ _ _ _ b'] by blast
  then show "train E cmdline s =
            run_training E opts (argv ! 1) rd m
              (s1\<lparr>heap := fst (bind_attrs am m h3),
                  trace := trace s1 @
                    [NewReader (argv ! 0) (PStr (lang opts)),
                     Print Stdout [PStr ''Loading ASO model...''] False, Flush Stdout,
                     Load path, Print Stdout [PStr ''[done]''] True,
                     NewTagger afd ahd alang (verbose opts)]\<rparr>)"
    by (simp add: aso_events_def)
  show "getattr (fst (bind_attrs am m h3)) (PRef m) ''V'' = Inr voc"
    by (simp add: b getattr_def)
  show "getattr (fst (bind_attrs am m h3)) (PRef m) ''T'' = Inr tg"
    by (simp add: b getattr_def)
  show "getattr (fst (bind_attrs am m h3)) (PRef m) ''minc'' = Inr mc"
    by (simp add: b getattr_def)
  show "getattr (fst (bind_attrs am m h3)) (PRef m) ''use_eph'' = Inr aeph"
    by (simp add: b getattr_def)
next
  assume a: "get_features E opts s = (s1, Inr (fd, hd'))
          \<and> Conll03Reader E (argv ! 0) (PStr (lang opts)) (heap s1) = Inr (rd, h1)
          \<and> compressed_load E path h1 = Inr (am, h2)
          \<and> getattr h2 am ''fd'' = Inr afd
          \<and> getattr h2 am ''hd'' = Inr ahd
          \<and> getattr h2 am ''lang'' = Inr alang
          \<and> GreedySVMTagger E afd ahd alang (verbose opts) h2 = Inr (m, h3)
          \<and> getattr h3 am ''use_eph'' = Inr aeph
          \<and> py_ne (PBool (use_eph opts)) aeph"
  then have ne: "py_ne (PBool (use_eph opts)) aeph
         \<or> getattr h3 am ''lang'' = Inr alang \<and> py_ne (PStr (lang opts)) alang"
    by blast
  from a have "train E cmdline s =
           (s1\<lparr>heap := h3,
               trace := trace s1 @ NewReader (argv ! 0) (PStr (lang opts))
                          # aso_events path afd ahd alang (verbose opts)\<rparr>,
            Raised (Error (if py_ne (PBool (use_eph opts)) aeph
                           then ''options.use_eph != aso_model.use_eph.''
                           else ''options.lang != aso_model.lang.'')))"
    using train_aso_mismatch [OF assms(1,2) _ _ assms(3,4) _ _ _ _ _ _ ne] by blast
  with a show "train E cmdline s =
            (s1\<lparr>heap := h3,
                trace := trace s1 @
                  [NewReader (argv ! 0) (PStr (lang opts)),
                   Print Stdout [PStr ''Loading ASO model...''] False, Flush Stdout,
                   Load path, Print Stdout [PStr ''[done]''] True,
                   NewTagger afd ahd alang (verbose opts)]\<rparr>,
             Raised (Error ''options.use_eph != aso_model.use_eph.''))"
    by (simp add: aso_events_def)
qed

section \<open>Instances on the sample environment\<close>

lemma sample_features:
  assumes "feature_module opts = ''rr09''"
  shows "get_features (sample_env opts) opts init_state =
           (\<lparr>heap = (\<lambda>r. Map.empty)(1 := [''fd'' \<mapsto> PRef 2, ''hd'' \<mapsto> PRef 3]),
             trace = [Import ''nut.ner.features.rr09'' [''rr09'']],
             closed_streams = {}\<rparr>,
            Inr (PRef 2, PRef 3))"
  using assms
  by (simp add: get_features_def import_features_def sample_env_def init_state_def Let_def
      emit_def getattr_def)

lemma sample_run_training:
  assumes "\<not> stats opts"
  shows "run_training (sample_env opts') opts f_model rd m s =
           (s\<lparr>trace := trace s @ [TrainCall m rd (reg opts) (epochs opts) (shuffle opts),
                                   Dump f_model m]\<rparr>, Returned)"
  using assms by (simp add: run_training_def sample_env_def Let_def emit_def)

theorem import_failure_exits_witness:
  "train (sample_env (default_options\<lparr>feature_module := ''crf07''\<rparr>))
     [''train.txt'', ''out.model''] init_state =
   (\<lparr>heap = (\<lambda>r. Map.empty),
     trace = [Import ''nut.ner.features.crf07'' [''crf07''],
              Print Stdout [PStr ''Error: cannot import feature extractors from crf07''] True],
     closed_streams = {}\<rparr>,
    SysExit (- 2))"
proof -
  let ?o = "default_options\<lparr>feature_module := ''crf07''\<rparr>"
  let ?E = "sample_env ?o"
  let ?argv = "[''train.txt'', ''out.model'']"
  have 1: "parse_args ?E ?argv = Parsed ?o ?argv"
    by (simp add: sample_env_def)
  have 2: "length ?argv = 2"
    by simp
  have 3: "import_module ?E (''nut.ner.features.'' @ feature_module ?o) [feature_module ?o]
             (heap init_state) = Inl ImportError"
    by (simp add: sample_env_def)
  from import_failure_exits [OF 1 2 3] show ?thesis
    by (simp add: init_state_def)
qed

theorem aso_mismatch_is_fatal_witness:
  "snd (train (sample_env (default_options\<lparr>aso := Some ''aso.model''\<rparr>))
          [''train.txt'', ''out.model''] init_state)
     = Raised (Error ''options.use_eph != aso_model.use_eph.'')
   \<and> filter is_training_step
       (trace (fst (train (sample_env (default_options\<lparr>aso := Some ''aso.model''\<rparr>))
          [''train.txt'', ''out.model''] init_state))) = []"
proof -
  let ?o = "default_options\<lparr>aso := Some ''aso.model''\<rparr>"
  let ?E = "sample_env ?o"
  let ?argv = "[''train.txt'', ''out.model'']"
  let ?h1 = "(\<lambda>r. Map.empty)(1 := [''fd'' \<mapsto> PRef 2, ''hd'' \<mapsto> PRef 3])"
  let ?s1 = "\<lparr>heap = ?h1, trace = [Import ''nut.ner.features.rr09'' [''rr09'']],
              closed_streams = {}\<rparr>"
  let ?h2 = "?h1(10 := sample_aso)"
  let ?h3 = "?h2(30 := [''fd'' \<mapsto> PRef 11, ''hd'' \<mapsto> PRef 12, ''lang'' \<mapsto> PStr ''en'',
                        ''verbose'' \<mapsto> PInt 1])"
  have 1: "parse_args ?E ?argv = Parsed ?o ?argv"
    by (simp add: sample_env_def)
  have 2: "length ?argv = 2"
    by simp
  have 3: "get_features ?E ?o init_state = (?s1, Inr (PRef 2, PRef 3))"
    by (rule sample_features) (simp add: default_options_def)
  have 4: "Conll03Reader ?E (?argv ! 0) (PStr (lang ?o)) (heap ?s1) = Inr (PRef 4, ?h1)"
    by (simp add: sample_env_def)
  have 5: "aso ?o = Some ''aso.model''" and 6: "''aso.model'' \<noteq> []"
    by simp_all
  have 7: "compressed_load ?E ''aso.model'' ?h1 = Inr (PRef 10, ?h2)"
    by (simp add: sample_env_def)
  have 8: "getattr ?h2 (PRef 10) ''fd'' = Inr (PRef 11)"
    and 9: "getattr ?h2 (PRef 10) ''hd'' = Inr (PRef 12)"
    and 10: "getattr ?h2 (PRef 10) ''lang'' = Inr (PStr ''en'')"
    by (simp_all add: getattr_def sample_aso_def)
  have 11: "GreedySVMTagger ?E (PRef 11) (PRef 12) (PStr ''en'') (verbose ?o) ?h2 = Inr (30, ?h3)"
    by (simp add: sample_env_def default_options_def)
  have 12: "getattr ?h3 (PRef 10) ''use_eph'' = Inr (PBool True)"
    by (simp add: getattr_def sample_aso_def)
  have 13: "py_ne (PBool (use_eph ?o)) (PBool True)
         \<or> getattr ?h3 (PRef 10) ''lang'' = Inr (PStr ''en'') \<and> py_ne (PStr (lang ?o)) (PStr ''en'')"
    by (simp add: py_ne_def py_eq_def default_options_def)
  from aso_mismatch_is_fatal [OF 1 2 3 4 5 6 7 8 9 10 11 12 13]
  show ?thesis
    by (simp add: py_ne_def py_eq_def default_options_def init_state_def aso_events_def)
qed

theorem aso_mismatch_binds_nothing_witness:
  "heap (fst (train (sample_env (default_options\<lparr>aso := Some ''aso.model'', lang := ''de'',
                                                  use_eph := True\<rparr>))
          [''train.txt'', ''out.model''] init_state)) 30
     = [''fd'' \<mapsto> PRef 11, ''hd'' \<mapsto> PRef 12, ''lang'' \<mapsto> PStr ''en'', ''verbose'' \<mapsto> PInt 1]
   \<and> map (getattr (heap (fst (train (sample_env (default_options\<lparr>aso := Some ''aso.model'',
                                                  lang := ''de'', use_eph := True\<rparr>))
          [''train.txt'', ''out.model''] init_state))) (PRef 30)) bind_targets
     = [Inl AttributeError, Inl AttributeError, Inl AttributeError, Inl AttributeError,
        Inl AttributeError, Inl AttributeError, Inl AttributeError, Inl AttributeError,
        Inl AttributeError]"
proof -
  let ?o = "default_options\<lparr>aso := Some ''aso.model'', lang := ''de'', use_eph := True\<rparr>"
  let ?E = "sample_env ?o"
  let ?argv = "[''train.txt'', ''out.model'']"
  let ?h1 = "(\<lambda>r. Map.empty)(1 := [''fd'' \<mapsto> PRef 2, ''hd'' \<mapsto> PRef 3])"
  let ?s1 = "\<lparr>heap = ?h1, trace = [Import ''nut.ner.features.rr09'' [''rr09'']],
              closed_streams = {}\<rparr>"
  let ?h2 = "?h1(10 := sample_aso)"
  let ?h3 = "?h2(30 := [''fd'' \<mapsto> PRef 11, ''hd'' \<mapsto> PRef 12, ''lang'' \<mapsto> PStr ''en'',
                        ''verbose'' \<mapsto> PInt 1])"
  have 1: "parse_args ?E ?argv = Parsed ?o ?argv"
    by (simp add: sample_env_def)
  have 2: "length ?argv = 2"
    by simp
  have 3: "get_features ?E ?o init_state = (?s1, Inr (PRef 2, PRef 3))"
    by (rule sample_features) (simp add: default_options_def)
  have 4: "Conll03Reader ?E (?argv ! 0) (PStr (lang ?o)) (heap ?s1) = Inr (PRef 4, ?h1)"
    by (simp add: sample_env_def)
  have 5: "aso ?o = Some ''aso.model''" and 6: "''aso.model'' \<noteq> []"
    by simp_all
  have 7: "compressed_load ?E ''aso.model'' ?h1 = Inr (PRef 10, ?h2)"
    by (simp add: sample_env_def)
  have 8: "getattr ?h2 (PRef 10) ''fd'' = Inr (PRef 11)"
    and 9: "getattr ?h2 (PRef 10) ''hd'' = Inr (PRef 12)"
    and 10: "getattr ?h2 (PRef 10) ''lang'' = Inr (PStr ''en'')"
    by (simp_all add: getattr_def sample_aso_def)
  have 11: "GreedySVMTagger ?E (PRef 11) (PRef 12) (PStr ''en'') (verbose ?o) ?h2 = Inr (30, ?h3)"
    by (simp add: sample_env_def default_options_def)
  have 12: "getattr ?h3 (PRef 10) ''use_eph'' = Inr (PBool True)"
    by (simp add: getattr_def sample_aso_def)
  have 13: "py_ne (PBool (use_eph ?o)) (PBool True)
         \<or> getattr ?h3 (PRef 10) ''lang'' = Inr (PStr ''en'') \<and> py_ne (PStr (lang ?o)) (PStr ''en'')"
    by (simp add: py_ne_def py_eq_def getattr_def sample_aso_def)
  from aso_mismatch_binds_nothing [OF 1 2 3 4 5 6 7 8 9 10 11 12 13]
  have "heap (fst (train ?E ?argv init_state)) = ?h3"
    by (elim conjE)
  then show ?thesis
    by (simp add: bind_targets_def bound_attrs_def getattr_def)
qed

theorem aso_match_binds_by_reference_witness:
  "train (sample_env (default_options\<lparr>aso := Some ''aso.model'', use_eph := True\<rparr>))
          [''train.txt'', ''out.model''] init_state
     = (\<lparr>heap = (\<lambda>r. Map.empty)
            (1 := [''fd'' \<mapsto> PRef 2, ''hd'' \<mapsto> PRef 3],
             10 := sample_aso,
             30 := [''fd'' \<mapsto> PRef 11, ''hd'' \<mapsto> PRef 12, ''lang'' \<mapsto> PStr ''en'',
                    ''verbose'' \<mapsto> PInt 1, ''V'' \<mapsto> PRef 13, ''T'' \<mapsto> PRef 14,
                    ''use_eph'' \<mapsto> PBool True, ''minc'' \<mapsto> PInt 2, ''fidx_map'' \<mapsto> PRef 15,
                    ''tidx_map'' \<mapsto> PRef 16, ''tag_map'' \<mapsto> PRef 17,
                    ''use_aso'' \<mapsto> PBool True, ''aso_model'' \<mapsto> PRef 10]),
         trace = [Import ''nut.ner.features.rr09'' [''rr09''],
                  NewReader ''train.txt'' (PStr ''en''),
                  Print Stdout [PStr ''Loading ASO model...''] False, Flush Stdout,
                  Load ''aso.model'', Print Stdout [PStr ''[done]''] True,
                  NewTagger (PRef 11) (PRef 12) (PStr ''en'') 1,
                  TrainCall 30 (PRef 4) (1 / 100000) 100 False,
                  Dump ''out.model'' 30],
         closed_streams = {}\<rparr>,
        Returned)"
proof -
  let ?o = "default_options\<lparr>aso := Some ''aso.model'', use_eph := True\<rparr>"
  let ?E = "sample_env ?o"
  let ?argv = "[''train.txt'', ''out.model'']"
  let ?h1 = "(\<lambda>r. Map.empty)(1 := [''fd'' \<mapsto> PRef 2, ''hd'' \<mapsto> PRef 3])"
  let ?s1 = "\<lparr>heap = ?h1, trace = [Import ''nut.ner.features.rr09'' [''rr09'']],
              closed_streams = {}\<rparr>"
  let ?h2 = "?h1(10 := sample_aso)"
  let ?h3 = "?h2(30 := [''fd'' \<mapsto> PRef 11, ''hd'' \<mapsto> PRef 12, ''lang'' \<mapsto> PStr ''en'',
                        ''verbose'' \<mapsto> PInt 1])"
  let ?h4 = "fst (bind_attrs (PRef 10) 30 ?h3)"
  have 1: "parse_args ?E ?argv = Parsed ?o ?argv"
    by (simp add: sample_env_def)
  have 2: "length ?argv = 2"
    by simp
  have 3: "get_features ?E ?o init_state = (?s1, Inr (PRef 2, PRef 3))"
    by (rule sample_features) (simp add: default_options_def)
  have 4: "Conll03Reader ?E (?argv ! 0) (PStr (lang ?o)) (heap ?s1) = Inr (PRef 4, ?h1)"
    by (simp add: sample_env_def)
  have 5: "aso ?o = Some ''aso.model''" and 6: "''aso.model'' \<noteq> []"
    by simp_all
  have 7: "compressed_load ?E ''aso.model'' ?h1 = Inr (PRef 10, ?h2)"
    by (simp add: sample_env_def)
  have 8: "getattr ?h2 (PRef 10) ''fd'' = Inr (PRef 11)"
    and 9: "getattr ?h2 (PRef 10) ''hd'' = Inr (PRef 12)"
    and 10: "getattr ?h2 (PRef 10) ''lang'' = Inr (PStr ''en'')"
    by (simp_all add: getattr_def sample_aso_def)
  have 11: "GreedySVMTagger ?E (PRef 11) (PRef 12) (PStr ''en'') (verbose ?o) ?h2 = Inr (30, ?h3)"
    by (simp add: sample_env_def default_options_def)
  have 12: "getattr ?h3 (PRef 10) ''use_eph'' = Inr (PBool True)"
    by (simp add: getattr_def sample_aso_def)
  have 13: "\<not> py_ne (PBool (use_eph ?o)) (PBool True)"
    by (simp add: py_ne_def py_eq_def)
  have 14: "getattr ?h3 (PRef 10) ''lang'' = Inr (PStr ''en'')"
    by (simp add: getattr_def sample_aso_def)
  have 15: "\<not> py_ne (PStr (lang ?o)) (PStr ''en'')"
    by (simp add: py_ne_def py_eq_def default_options_def)
  have 16: "getattr ?h3 (PRef 10) ''vocabulary'' = Inr (PRef 13)"
    and 17: "getattr ?h3 (PRef 10) ''tags'' = Inr (PRef 14)"
    and 18: "getattr ?h3 (PRef 10) ''minc'' = Inr (PInt 2)"
    and 19: "getattr ?h3 (PRef 10) ''fidx_map'' = Inr (PRef 15)"
    and 20: "getattr ?h3 (PRef 10) ''tidx_map'' = Inr (PRef 16)"
    and 21: "getattr ?h3 (PRef 10) ''tag_map'' = Inr (PRef 17)"
    by (simp_all add: getattr_def sample_aso_def)
  have 22: "?h4 = fst (bind_attrs (PRef 10) 30 ?h3)"
    by simp
  have h4: "?h4 = ?h3(30 := (?h3 30)(''V'' \<mapsto> PRef 13, ''T'' \<mapsto> PRef 14,
                ''use_eph'' \<mapsto> PBool True, ''minc'' \<mapsto> PInt 2, ''fidx_map'' \<mapsto> PRef 15,
                ''tidx_map'' \<mapsto> PRef 16, ''tag_map'' \<mapsto> PRef 17,
                ''use_aso'' \<mapsto> PBool True, ''aso_model'' \<mapsto> PRef 10))"
    using bind_attrs_ok [OF 16 17 12 18 19 20 21, of 30] by simp
  from aso_match_binds_by_reference
         [OF 1 2 3 4 5 6 7 8 9 10 11 12 13 14 15 16 17 18 19 20 21 22]
  have t: "train ?E ?argv init_state =
           run_training ?E ?o (?argv ! 1) (PRef 4) 30
             (?s1\<lparr>heap := ?h4,
                 trace := trace ?s1 @ NewReader (?argv ! 0) (PStr (lang ?o))
                            # aso_events ''aso.model'' (PRef 11) (PRef 12) (PStr ''en'') (verbose ?o)\<rparr>)"
    by (elim conjE)
  show ?thesis
    unfolding t using h4
    by (simp add: sample_run_training default_options_def aso_events_def)
qed

lemma sample_predict_load:
  "compressed_load (sample_env opts) ''ner.model'' (heap init_state)
     = Inr (PRef 20, (\<lambda>r. Map.empty)(20 := sample_tagger))"
  by (simp add: sample_env_def init_state_def)

lemma sample_tagger_use_eph:
  "getattr ((\<lambda>r. Map.empty)(20 := sample_tagger)) (PRef 20) ''use_eph'' = Inr (PBool False)"
  by (simp add: getattr_def sample_tagger_def)

lemma sample_tagger_use_aso:
  "getattr ((\<lambda>r. Map.empty)(20 := sample_tagger)) (PRef 20) ''use_aso'' = Inr (PBool False)"
  by (simp add: getattr_def sample_tagger_def)

lemma sample_tagger_lang:
  "getattr ((\<lambda>r. Map.empty)(20 := sample_tagger)) (PRef 20) ''lang'' = Inr (PStr ''en'')"
  by (simp add: getattr_def sample_tagger_def)

lemma sample_predict_reader:
  "Conll03Reader (sample_env opts) test_file l h = Inr (PRef 4, h)"
  by (simp add: sample_env_def)

theorem plain_run_extracts_then_trains_witness:
  "train (sample_env (default_options\<lparr>minc := 3, use_eph := True\<rparr>))
     [''train.txt'', ''out.model''] init_state
     = (\<lparr>heap = (\<lambda>r. Map.empty)
            (1 := [''fd'' \<mapsto> PRef 2, ''hd'' \<mapsto> PRef 3],
             30 := [''fd'' \<mapsto> PRef 2, ''hd'' \<mapsto> PRef 3, ''lang'' \<mapsto> PStr ''en'',
                    ''verbose'' \<mapsto> PInt 1, ''minc'' \<mapsto> PInt 3, ''use_eph'' \<mapsto> PBool True]),
         trace = [Import ''nut.ner.features.rr09'' [''rr09''],
                  NewReader ''train.txt'' (PStr ''en''),
                  NewTagger (PRef 2) (PRef 3) (PStr ''en'') 1,
                  FeatureExtraction 30 (PRef 4) 3 True,
                  TrainCall 30 (PRef 4) (1 / 100000) 100 False,
                  Dump ''out.model'' 30],
         closed_streams = {}\<rparr>,
        Returned)"
proof -
  let ?o = "default_options\<lparr>minc := 3, use_eph := True\<rparr>"
  let ?E = "sample_env ?o"
  let ?argv = "[''train.txt'', ''out.model'']"
  let ?h1 = "(\<lambda>r. Map.empty)(1 := [''fd'' \<mapsto> PRef 2, ''hd'' \<mapsto> PRef 3])"
  let ?s1 = "\<lparr>heap = ?h1, trace = [Import ''nut.ner.features.rr09'' [''rr09'']],
              closed_streams = {}\<rparr>"
  let ?h2 = "?h1(30 := [''fd'' \<mapsto> PRef 2, ''hd'' \<mapsto> PRef 3, ''lang'' \<mapsto> PStr ''en'',
                        ''verbose'' \<mapsto> PInt 1])"
  let ?h3 = "setattr (setattr ?h2 30 ''minc'' (PInt 3)) 30 ''use_eph'' (PBool True)"
  have 1: "parse_args ?E ?argv = Parsed ?o ?argv"
    by (simp add: sample_env_def)
  have 2: "length ?argv = 2"
    by simp
  have 3: "aso ?o = None \<or> aso ?o = Some []"
    by (simp add: default_options_def)
  have 4: "get_features ?E ?o init_state = (?s1, Inr (PRef 2, PRef 3))"
    by (rule sample_features) (simp add: default_options_def)
  have 5: "Conll03Reader ?E (?argv ! 0) (PStr (lang ?o)) (heap ?s1) = Inr (PRef 4, ?h1)"
    by (simp add: sample_env_def)
  have 6: "GreedySVMTagger ?E (PRef 2) (PRef 3) (PStr (lang ?o)) (verbose ?o) ?h1 = Inr (30, ?h2)"
    by (simp add: sample_env_def default_options_def)
  have 7: "feature_extraction ?E 30 (PRef 4) (minc ?o) (use_eph ?o) ?h2 = Inr ?h3"
    by (simp add: sample_env_def)
  have 8: "model_train ?E 30 (PRef 4) (reg ?o) (epochs ?o) (shuffle ?o) ?h3 = Inr ?h3
          \<and> \<not> stats ?o
          \<and> compressed_dump ?E (?argv ! 1) 30 ?h3 = Inr ?h3"
    by (simp add: sample_env_def default_options_def)
  from plain_run_extracts_then_trains
         [where ?h4.0 = ?h3 and ?h5.0 = ?h3, OF 1 2 3 4 5 6 7,
          THEN conjunct2, THEN conjunct2, THEN conjunct2, THEN conjunct1, THEN mp, OF 8]
  show ?thesis
    by (simp add: default_options_def setattr_def)
qed

theorem positional_arguments_witness:
  "train (sample_env default_options) [''train.txt''] init_state
     = (\<lparr>heap = (\<lambda>r. Map.empty),
         trace = [ParserError ''incorrect number of arguments (use `--help` for help).''],
         closed_streams = {}\<rparr>,
        SysExit 2)
   \<and> train (sample_env default_options) [''train.txt'', ''out.model''] init_state
     = (\<lparr>heap = (\<lambda>r. Map.empty)
            (1 := [''fd'' \<mapsto> PRef 2, ''hd'' \<mapsto> PRef 3],
             30 := [''fd'' \<mapsto> PRef 2, ''hd'' \<mapsto> PRef 3, ''lang'' \<mapsto> PStr ''en'',
                    ''verbose'' \<mapsto> PInt 1, ''minc'' \<mapsto> PInt 1, ''use_eph'' \<mapsto> PBool False]),
         trace = [Import ''nut.ner.features.rr09'' [''rr09''],
                  NewReader ''train.txt'' (PStr ''en''),
                  NewTagger (PRef 2) (PRef 3) (PStr ''en'') 1,
                  FeatureExtraction 30 (PRef 4) 1 False,
                  TrainCall 30 (PRef 4) (1 / 100000) 100 False,
                  Dump ''out.model'' 30],
         closed_streams = {}\<rparr>,
        Returned)
   \<and> reader_paths (trace (fst (train (sample_env default_options)
                                   [''train.txt'', ''out.model''] init_state)))
       = [''train.txt'']
   \<and> dump_paths (trace (fst (train (sample_env default_options)
                                 [''train.txt'', ''out.model''] init_state)))
       = [''out.model'']"
proof -
  let ?o = "default_options"
  let ?E = "sample_env default_options"
  let ?argv = "[''train.txt'', ''out.model'']"
  have 1: "parse_args ?E [''train.txt''] = Parsed default_options [''train.txt'']"
    by (simp add: sample_env_def)
  have 2: "parse_args ?E ?argv = Parsed default_options ?argv"
    by (simp add: sample_env_def)
  let ?h1 = "(\<lambda>r. Map.empty)(1 := [''fd'' \<mapsto> PRef 2, ''hd'' \<mapsto> PRef 3])"
  let ?s1 = "\<lparr>heap = ?h1, trace = [Import ''nut.ner.features.rr09'' [''rr09'']],
              closed_streams = {}\<rparr>"
  let ?h3 = "?h1(30 := [''fd'' \<mapsto> PRef 2, ''hd'' \<mapsto> PRef 3, ''lang'' \<mapsto> PStr ''en'',
                        ''verbose'' \<mapsto> PInt 1, ''minc'' \<mapsto> PInt 1,
                        ''use_eph'' \<mapsto> PBool False])"
  let ?s2 = "\<lparr>heap = ?h3,
              trace = [Import ''nut.ner.features.rr09'' [''rr09''],
                       NewReader ''train.txt'' (PStr ''en''),
                       NewTagger (PRef 2) (PRef 3) (PStr ''en'') 1,
                       FeatureExtraction 30 (PRef 4) 1 False],
              closed_streams = {}\<rparr>"
  let ?tc = "TrainCall 30 (PRef 4) (reg ?o) (epochs ?o) (shuffle ?o)"
  let ?s3 = "(emit ?tc ?s2)\<lparr>heap := ?h3\<rparr>"
  have g: "get_features ?E ?o init_state = (?s1, Inr (PRef 2, PRef 3))"
    by (rule sample_features) (simp add: default_options_def)
  have p: "length ?argv = 2
          \<and> get_features ?E ?o init_state = (?s1, Inr (PRef 2, PRef 3))
          \<and> Conll03Reader ?E (?argv ! 0) (PStr (lang ?o)) (heap ?s1) = Inr (PRef 4, ?h1)
          \<and> build_model ?E ?o (PRef 2) (PRef 3) (PRef 4)
                ((emit (NewReader (?argv ! 0) (PStr (lang ?o))) ?s1)\<lparr>heap := ?h1\<rparr>)
              = (?s2, Inr 30)
          \<and> model_train ?E 30 (PRef 4) (reg ?o) (epochs ?o) (shuffle ?o) (heap ?s2) = Inr ?h3
          \<and> (if stats ?o then print_stats ?E 30 ((emit ?tc ?s2)\<lparr>heap := ?h3\<rparr>)
               else ((emit ?tc ?s2)\<lparr>heap := ?h3\<rparr>, None)) = (?s3, None)"
    using g
    by (simp add: build_model_def build_plain_def sample_env_def default_options_def
        Let_def emit_def setattr_def)
  from positional_arguments
         [OF 2, THEN conjunct2, THEN conjunct2, THEN conjunct2, THEN mp, OF p]
  have t: "train ?E ?argv init_state =
              (case compressed_dump ?E (?argv ! 1) 30 (heap ?s3) of
                 Inl e \<Rightarrow> (emit (Dump (?argv ! 1) 30) ?s3, Raised e)
               | Inr h5 \<Rightarrow> ((emit (Dump (?argv ! 1) 30) ?s3)\<lparr>heap := h5\<rparr>, Returned))" .
  have full: "train ?E ?argv init_state
     = (\<lparr>heap = ?h3,
         trace = [Import ''nut.ner.features.rr09'' [''rr09''],
                  NewReader ''train.txt'' (PStr ''en''),
                  NewTagger (PRef 2) (PRef 3) (PStr ''en'') 1,
                  FeatureExtraction 30 (PRef 4) 1 False,
                  TrainCall 30 (PRef 4) (1 / 100000) 100 False,
                  Dump ''out.model'' 30],
         closed_streams = {}\<rparr>,
        Returned)"
    unfolding t by (simp add: sample_env_def default_options_def emit_def)
  then have r: "snd (train ?E ?argv init_state) = Returned"
    by simp
  from positional_arguments [OF 1, of init_state]
  have a: "train ?E [''train.txt''] init_state
     = (init_state\<lparr>trace := trace init_state @
           [ParserError ''incorrect number of arguments (use `--help` for help).'']\<rparr>,
        SysExit 2)"
    by simp
  from positional_arguments [OF 2, of init_state] r
  have b: "reader_paths (drop (length (trace init_state))
             (trace (fst (train ?E ?argv init_state)))) = [''train.txt'']"
    and c: "dump_paths (drop (length (trace init_state))
             (trace (fst (train ?E ?argv init_state)))) = [''out.model'']"
    by simp_all
  from a b c full show ?thesis
    by (simp add: init_state_def)
qed

text \<open>
  Claim C4 as stated counts \<open>--eph\<close> among the values that are ignored once an ASO
  model path is given. Two runs with the same ASO model, the same files and the same
  feature module, which differ in \<open>--eph\<close> only: without it \<open>train\<close> raises \<open>Error\<close>
  before any training step, with it \<open>train\<close> trains and saves the model.
\<close>

theorem aso_overrides_feature_module_counterexample:
  "train (sample_env (default_options\<lparr>aso := Some ''aso.model''\<rparr>))
      [''train.txt'', ''out.model''] init_state
     = (\<lparr>heap = (\<lambda>r. Map.empty)
            (1 := [''fd'' \<mapsto> PRef 2, ''hd'' \<mapsto> PRef 3],
             10 := sample_aso,
             30 := [''fd'' \<mapsto> PRef 11, ''hd'' \<mapsto> PRef 12, ''lang'' \<mapsto> PStr ''en'',
                    ''verbose'' \<mapsto> PInt 1]),
         trace = [Import ''nut.ner.features.rr09'' [''rr09''],
                  NewReader ''train.txt'' (PStr ''en''),
                  Print Stdout [PStr ''Loading ASO model...''] False, Flush Stdout,
                  Load ''aso.model'', Print Stdout [PStr ''[done]''] True,
                  NewTagger (PRef 11) (PRef 12) (PStr ''en'') 1],
         closed_streams = {}\<rparr>,
        Raised (Error ''options.use_eph != aso_model.use_eph.''))
   \<and> snd (train (sample_env (default_options\<lparr>aso := Some ''aso.model'', use_eph := True\<rparr>))
          [''train.txt'', ''out.model''] init_state) = Returned
   \<and> dump_paths (trace (fst (train
          (sample_env (default_options\<lparr>aso := Some ''aso.model'', use_eph := True\<rparr>))
          [''train.txt'', ''out.model''] init_state))) = [''out.model'']"
  by (simp add: train_def train_body_def build_model_def bind_aso_def bind_attrs_def
      bound_attrs_def run_training_def get_features_def import_features_def sample_env_def
      sample_aso_def default_options_def init_state_def Let_def emit_def getattr_def
      setattr_def py_ne_def py_eq_def)

theorem aso_overrides_feature_module_witness:
  "snd (train (sample_env (default_options\<lparr>feature_module := ''crf07'',
                                              aso := Some ''aso.model''\<rparr>))
          [''train.txt'', ''out.model''] init_state) = SysExit (- 2)
   \<and> train (sample_env (default_options\<lparr>aso := Some ''aso.model'', use_eph := True\<rparr>))
          [''train.txt'', ''out.model''] init_state
       = train_body (sample_env (default_options\<lparr>aso := Some ''aso.model'', use_eph := True\<rparr>))
           (default_options\<lparr>aso := Some ''aso.model'', use_eph := True, minc := 50\<rparr>)
           ''train.txt'' ''out.model'' PNone PNone
           \<lparr>heap = (\<lambda>r. Map.empty)(1 := [''fd'' \<mapsto> PRef 2, ''hd'' \<mapsto> PRef 3]),
            trace = [Import ''nut.ner.features.rr09'' [''rr09'']],
            closed_streams = {}\<rparr>
   \<and> getattr (heap (fst (train (sample_env (default_options\<lparr>aso := Some ''aso.model'',
                                                               use_eph := True\<rparr>))
          [''train.txt'', ''out.model''] init_state))) (PRef 30) ''minc'' = Inr (PInt 2)
   \<and> snd (train (sample_env (default_options\<lparr>aso := Some ''aso.model''\<rparr>))
          [''train.txt'', ''out.model''] init_state)
       = Raised (Error ''options.use_eph != aso_model.use_eph.'')"
proof -
  let ?o = "default_options\<lparr>aso := Some ''aso.model'', use_eph := True\<rparr>"
  let ?E = "sample_env ?o"
  let ?argv = "[''train.txt'', ''out.model'']"
  let ?h1 = "(\<lambda>r. Map.empty)(1 := [''fd'' \<mapsto> PRef 2, ''hd'' \<mapsto> PRef 3])"
  let ?s1 = "\<lparr>heap = ?h1, trace = [Import ''nut.ner.features.rr09'' [''rr09'']],
              closed_streams = {}\<rparr>"
  let ?h2 = "?h1(10 := sample_aso)"
  let ?h3 = "?h2(30 := [''fd'' \<mapsto> PRef 11, ''hd'' \<mapsto> PRef 12, ''lang'' \<mapsto> PStr ''en'',
                        ''verbose'' \<mapsto> PInt 1])"
  let ?ob = "default_options\<lparr>feature_module := ''crf07'', aso := Some ''aso.model''\<rparr>"
  have b1: "parse_args (sample_env ?ob) ?argv = Parsed ?ob ?argv"
    by (simp add: sample_env_def)
  have b3: "aso ?ob = Some ''aso.model''"
    by simp
  have b5: "import_module (sample_env ?ob) (''nut.ner.features.'' @ feature_module ?ob)
              [feature_module ?ob] (heap init_state) = Inl ImportError"
    by (simp add: sample_env_def)
  have 1: "parse_args ?E ?argv = Parsed ?o ?argv"
    by (simp add: sample_env_def)
  have 2: "length ?argv = 2"
    by simp
  have 3: "aso ?o = Some ''aso.model''" and 4: "''aso.model'' \<noteq> []"
    by simp_all
  have 5: "get_features ?E ?o init_state = (?s1, Inr (PRef 2, PRef 3))"
    by (rule sample_features) (simp add: default_options_def)
  have 6: "Conll03Reader ?E (?argv ! 0) (PStr (lang ?o)) (heap ?s1) = Inr (PRef 4, ?h1)"
    by (simp add: sample_env_def)
  have 7: "compressed_load ?E ''aso.model'' ?h1 = Inr (PRef 10, ?h2)"
    by (simp add: sample_env_def)
  have 8: "getattr ?h2 (PRef 10) ''fd'' = Inr (PRef 11)"
    and 9: "getattr ?h2 (PRef 10) ''hd'' = Inr (PRef 12)"
    and 10: "getattr ?h2 (PRef 10) ''lang'' = Inr (PStr ''en'')"
    by (simp_all add: getattr_def sample_aso_def)
  have 11: "GreedySVMTagger ?E (PRef 11) (PRef 12) (PStr ''en'') (verbose ?o) ?h2 = Inr (30, ?h3)"
    by (simp add: sample_env_def default_options_def)
  have 12: "getattr ?h3 (PRef 10) ''use_eph'' = Inr (PBool True)"
    by (simp add: getattr_def sample_aso_def)
  have 13: "\<not> py_ne (PBool (use_eph ?o)) (PBool True)"
    by (simp add: py_ne_def py_eq_def)
  have 14: "getattr ?h3 (PRef 10) ''lang'' = Inr (PStr ''en'')"
    by (simp add: getattr_def sample_aso_def)
  have 15: "\<not> py_ne (PStr (lang ?o)) (PStr ''en'')"
    by (simp add: py_ne_def py_eq_def default_options_def)
  have 16: "getattr ?h3 (PRef 10) ''vocabulary'' = Inr (PRef 13)"
    and 17: "getattr ?h3 (PRef 10) ''tags'' = Inr (PRef 14)"
    and 18: "getattr ?h3 (PRef 10) ''minc'' = Inr (PInt 2)"
    and 19: "getattr ?h3 (PRef 10) ''fidx_map'' = Inr (PRef 15)"
    and 20: "getattr ?h3 (PRef 10) ''tidx_map'' = Inr (PRef 16)"
    and 21: "getattr ?h3 (PRef 10) ''tag_map'' = Inr (PRef 17)"
    by (simp_all add: getattr_def sample_aso_def)
  note bad = aso_overrides_feature_module
      [where E = "sample_env ?ob" and cmdline = ?argv and opts = ?ob and argv = ?argv
         and path = "''aso.model''" and s = init_state, OF b1 2 b3 4]
  from bad [THEN conjunct1, THEN mp, OF b5]
  have a: "snd (train (sample_env ?ob) ?argv init_state) = SysExit (- 2)"
    by (elim conjE)
  note good = aso_overrides_feature_module
      [where E = ?E and cmdline = ?argv and opts = ?o and argv = ?argv
         and path = "''aso.model''" and s = init_state and ?s1.0 = ?s1
         and fd = "PRef 2" and hd' = "PRef 3" and k = 50 and ?fd2.0 = PNone and ?hd2.0 = PNone
         and rd = "PRef 4" and ?h1.0 = ?h1 and am = "PRef 10" and ?h2.0 = ?h2
         and afd = "PRef 11" and ahd = "PRef 12" and alang = "PStr ''en''" and m = 30
         and ?h3.0 = ?h3 and aeph = "PBool True" and alang' = "PStr ''en''"
         and voc = "PRef 13" and tg = "PRef 14" and mc = "PInt 2" and fi = "PRef 15"
         and ti = "PRef 16" and tm = "PRef 17", OF 1 2 3 4]
  from good 5 have b: "train ?E ?argv init_state
       = train_body ?E (?o\<lparr>minc := 50\<rparr>) (?argv ! 0) (?argv ! 1) PNone PNone ?s1"
    by blast
  from good 5 6 7 8 9 10 11 12 13 14 15 16 17 18 19 20 21
  have c: "train ?E ?argv init_state =
            run_training ?E ?o (?argv ! 1) (PRef 4) 30
              (?s1\<lparr>heap := fst (bind_attrs (PRef 10) 30 ?h3),
                  trace := trace ?s1 @
                    [NewReader (?argv ! 0) (PStr (lang ?o)),
                     Print Stdout [PStr ''Loading ASO model...''] False, Flush Stdout,
                     Load ''aso.model'', Print Stdout [PStr ''[done]''] True,
                     NewTagger (PRef 11) (PRef 12) (PStr ''en'') (verbose ?o)]\<rparr>)"
    and d: "getattr (fst (bind_attrs (PRef 10) 30 ?h3)) (PRef 30) ''minc'' = Inr (PInt 2)"
    by blast+
  have e: "heap (fst (train ?E ?argv init_state)) = fst (bind_attrs (PRef 10) 30 ?h3)"
    unfolding c by (simp add: sample_run_training default_options_def)
  let ?om = "default_options\<lparr>aso := Some ''aso.model''\<rparr>"
  have m1: "parse_args (sample_env ?om) ?argv = Parsed ?om ?argv"
    by (simp add: sample_env_def)
  have m3: "aso ?om = Some ''aso.model''"
    by simp
  have m5: "get_features (sample_env ?om) ?om init_state = (?s1, Inr (PRef 2, PRef 3))"
    by (rule sample_features) (simp add: default_options_def)
  have mh: "get_features (sample_env ?om) ?om init_state = (?s1, Inr (PRef 2, PRef 3))
          \<and> Conll03Reader (sample_env ?om) (?argv ! 0) (PStr (lang ?om)) (heap ?s1)
              = Inr (PRef 4, ?h1)
          \<and> compressed_load (sample_env ?om) ''aso.model'' ?h1 = Inr (PRef 10, ?h2)
          \<and> getattr ?h2 (PRef 10) ''fd'' = Inr (PRef 11)
          \<and> getattr ?h2 (PRef 10) ''hd'' = Inr (PRef 12)
          \<and> getattr ?h2 (PRef 10) ''lang'' = Inr (PStr ''en'')
          \<and> GreedySVMTagger (sample_env ?om) (PRef 11) (PRef 12) (PStr ''en'') (verbose ?om) ?h2
              = Inr (30, ?h3)
          \<and> getattr ?h3 (PRef 10) ''use_eph'' = Inr (PBool True)
          \<and> py_ne (PBool (use_eph ?om)) (PBool True)"
    using m5 8 9 10 12
    by (simp add: sample_env_def default_options_def py_ne_def py_eq_def)
  from aso_overrides_feature_module
         [OF m1 2 m3 4, THEN conjunct2, THEN conjunct2, THEN conjunct2, THEN mp, OF mh]
  have f: "snd (train (sample_env ?om) ?argv init_state)
       = Raised (Error ''options.use_eph != aso_model.use_eph.'')"
    by simp
  from a b f show ?thesis
    unfolding e d by simp
qed

lemma no_help_stdout:
  "{''ner.model'', ''test.txt'', ''-''} \<inter> {''--help'', ''-h''} = {}"
  by simp


lemma no_help_missing_file:
  "{''ner.model'', ''test.txt'', ''/missing/out.txt''} \<inter> {''--help'', ''-h''} = {}"
  by simp

lemma no_help_lost_model:
  "{''lost.model'', ''test.txt'', ''out.txt''} \<inter> {''--help'', ''-h''} = {}"
  by simp



theorem predict_failures_propagate_witness:
  "predict (sample_env default_options)
       [''predict'', ''lost.model'', ''test.txt'', ''out.txt''] init_state
     = (\<lparr>heap = (\<lambda>r. Map.empty),
         trace = [Print Stderr [PStr ''loading tagger...''] False, Flush Stderr,
                  Load ''lost.model''],
         closed_streams = {}\<rparr>,
        Raised (OtherException ''IOError''))
   \<and> predict (sample_env default_options)
       [''predict'', ''ner.model'', ''test.txt'', ''/missing/out.txt''] init_state
     = (\<lparr>heap = (\<lambda>r. Map.empty)(20 := sample_tagger),
         trace = [Print Stderr [PStr ''loading tagger...''] False, Flush Stderr,
                  Load ''ner.model'', Print Stderr [PStr ''[done]''] True,
                  Print Stderr [PStr ''use_eph: '', PBool False] True,
                  Print Stderr [PStr ''use_aso: '', PBool False] True,
                  NewReader ''test.txt'' (PStr ''en''), Open ''/missing/out.txt'' ''w+''],
         closed_streams = {}\<rparr>,
        Raised (OtherException ''IOError''))
   \<and> exit_status (Raised (OtherException ''IOError'')) = 1"
proof -
  let ?E = "sample_env default_options"
  let ?h = "(\<lambda>r. Map.empty)(20 := sample_tagger)"
  have l: "compressed_load ?E ''lost.model'' (heap init_state) = Inl (OtherException ''IOError'')"
    by (simp add: sample_env_def)
  have o: "''/missing/out.txt'' \<noteq> ''-''"
      "open_file ?E ''/missing/out.txt'' ''w+'' = Some (OtherException ''IOError'')"
    by (simp_all add: sample_env_def)
  from predict_failures_propagate [OF no_help_lost_model, THEN conjunct1, THEN mp, OF l]
  have a: "predict ?E [''predict'', ''lost.model'', ''test.txt'', ''out.txt''] init_state =
              (init_state\<lparr>trace := trace init_state @
                   [Print Stderr [PStr ''loading tagger...''] False, Flush Stderr,
                    Load ''lost.model'']\<rparr>,
               Raised (OtherException ''IOError''))" .
  have p: "compressed_load ?E ''ner.model'' (heap init_state) = Inr (PRef 20, ?h)
          \<and> getattr ?h (PRef 20) ''use_eph'' = Inr (PBool False)
          \<and> getattr ?h (PRef 20) ''use_aso'' = Inr (PBool False)
          \<and> getattr ?h (PRef 20) ''lang'' = Inr (PStr ''en'')
          \<and> Conll03Reader ?E ''test.txt'' (PStr ''en'') ?h = Inr (PRef 4, ?h)
          \<and> ''/missing/out.txt'' \<noteq> ''-''
          \<and> open_file ?E ''/missing/out.txt'' ''w+'' = Some (OtherException ''IOError'')"
    by (intro conjI sample_predict_load sample_tagger_use_eph sample_tagger_use_aso sample_tagger_lang sample_predict_reader o)
  from predict_failures_propagate
         [OF no_help_missing_file, THEN conjunct2, THEN conjunct1, THEN mp, OF p]
  have b: "predict ?E [''predict'', ''ner.model'', ''test.txt'', ''/missing/out.txt''] init_state =
              (init_state\<lparr>trace := trace init_state
                     @ predict_events ''ner.model'' ''test.txt'' (PBool False) (PBool False)
                         (PStr ''en'')
                     @ [Open ''/missing/out.txt'' ''w+''],
                  heap := ?h\<rparr>,
               Raised (OtherException ''IOError''))" .
  show ?thesis
    unfolding a b by (simp add: init_state_def predict_events_def exit_status_def)
qed

theorem predict_closes_output_witness:
  "predict (sample_env default_options)
       [''predict'', ''ner.model'', ''test.txt'', ''-''] init_state
     = (\<lparr>heap = (\<lambda>r. Map.empty)(20 := sample_tagger),
         trace = [Print Stderr [PStr ''loading tagger...''] False, Flush Stderr,
                  Load ''ner.model'', Print Stderr [PStr ''[done]''] True,
                  Print Stderr [PStr ''use_eph: '', PBool False] True,
                  Print Stderr [PStr ''use_aso: '', PBool False] True,
                  NewReader ''test.txt'' (PStr ''en''),
                  WritePredictions (PRef 4) (PRef 20) Stdout False, Close Stdout,
                  Print Stderr [PStr ''processed input in %.4fs sec.'', PFloat 1] True],
         closed_streams = {Stdout}\<rparr>,
        Returned)"
proof -
  let ?E = "sample_env default_options"
  let ?h = "(\<lambda>r. Map.empty)(20 := sample_tagger)"
  have o: "''-'' \<noteq> ''-'' \<longrightarrow> open_file ?E ''-'' ''w+'' = None"
    by simp
  have w: "write_sent_predictions ?E (PRef 4) (PRef 20)
             (if ''-'' = ''-'' then Stdout else FileObj ''-'' ''w+'') False ?h = Inr ?h"
    by (simp add: sample_env_def)
  from predict_closes_output
         [OF no_help_stdout sample_predict_load sample_tagger_use_eph sample_tagger_use_aso sample_tagger_lang sample_predict_reader o w,
          of "''predict''"]
  show ?thesis
    by (simp add: init_state_def predict_events_def sample_env_def)
qed

end
